theory Spec2Isabelle
  imports Main
begin

section \<open>Data model\<close>

text \<open>
  The entities of \<^verbatim>\<open>app/models/database_models.py\<close>. A UUID is an opaque key, a
  timestamp a number. The tables that are read by primary key only (users, addresses,
  products) are maps from the primary key to the row; \<^verbatim>\<open>orders\<close> and
  \<^verbatim>\<open>order_items\<close> are queried by other columns and are lists of rows.
  Field names follow the source; where two classes share a column name the second one
  carries the class as a prefix.
\<close>

type_synonym uuid = nat
type_synonym datetime = nat

text \<open>
  A finite \<^verbatim>\<open>decimal.Decimal\<close>: the value is \<open>coefficient * 10 ^ exponent\<close>.
  NaN and the infinities are not represented (the schema layer rejects them).
\<close>

datatype decimal = Decimal (coefficient: int) (exponent: int)

record user =
  username :: string
  email :: string
  description :: "string option"

record address =
  user_id :: uuid
  street :: string
  city :: string
  state :: "string option"
  zip_code :: string
  country :: string
  is_primary :: bool

record product =
  label :: string
  count_in_package :: int
  count_in_warehouse :: int
  price :: decimal
  created_at :: datetime
  updated_at :: datetime

record order_item =
  order_id :: uuid
  product_id :: uuid
  quantity :: int
  unit_price :: decimal

record order =
  id_of_order :: uuid
  order_user_id :: uuid
  order_address_id :: uuid

record database =
  users :: "uuid \<rightharpoonup> user"
  addresses :: "uuid \<rightharpoonup> address"
  products :: "uuid \<rightharpoonup> product"
  orders :: "order list"
  order_items :: "order_item list"

text \<open>
  Every exception the modelled code raises. The \<^verbatim>\<open>ValueError\<close>s are told apart by
  their message; the values interpolated into a message are the constructor's arguments.
\<close>

datatype error =
    ProductNotFound uuid
      \<comment> \<open>"Product {id} not found" / "Product with id {id} not found"\<close>
  | NotEnoughStock string int int
      \<comment> \<open>"Not enough stock for {label}. Available: {count}, Requested: {quantity}"\<close>
  | InsufficientStock int int
      \<comment> \<open>"Insufficient stock. Current stock: {count}, Requested change: {change}"\<close>
  | PriceNotPositive
      \<comment> \<open>"Product price must be greater than zero" / "Price must be greater than zero"\<close>
  | PriceTooLarge
      \<comment> \<open>"Price cannot exceed 1,000,000"\<close>
  | WarehouseCountNegative
      \<comment> \<open>"Warehouse count cannot be negative"\<close>
  | PackageCountTooSmall
      \<comment> \<open>"Count in package must be at least 1"\<close>
  | PackageCountTooLarge
      \<comment> \<open>"Count in package cannot exceed 10,000"\<close>
  | LabelTooShort
      \<comment> \<open>"Label must be at least 3 characters"\<close>
  | LabelTooLong
      \<comment> \<open>"Label cannot exceed 100 characters"\<close>
  | ProductReferenced
      \<comment> \<open>"Cannot delete product that is referenced in existing orders. ..."\<close>
  | AddressNotFound uuid
      \<comment> \<open>"Address with id {id} not found"\<close>
  | AddressInUse
      \<comment> \<open>"Cannot delete address that is used in existing orders"\<close>
  | UserNotFound uuid
      \<comment> \<open>"User with id {id} not found"\<close>
  | UserHasOrders
      \<comment> \<open>"Cannot delete user with existing orders"\<close>
  | UsernameTooShort
      \<comment> \<open>"Username must be at least 3 characters long"\<close>
  | UsernameInvalid
      \<comment> \<open>"Username must be at least 3 characters" (the schema's validator)\<close>
  | EmailImmutable
      \<comment> \<open>"Email cannot be changed after registration"\<close>
  | QuantityTooSmall
      \<comment> \<open>"Quantity must be at least 1"\<close>
  | EmptyOrder
      \<comment> \<open>"Order must contain at least one item"\<close>
  | InvalidOperation
      \<comment> \<open>\<^verbatim>\<open>decimal.InvalidOperation\<close>: a quantize result beyond the context precision\<close>
  | IntegrityError
      \<comment> \<open>the database engine refuses a flush (a constraint of the schema is violated)\<close>
  | DatabaseOperationFailed error
      \<comment> \<open>the \<^verbatim>\<open>HTTPException\<close> (status 500) that \<^verbatim>\<open>provide_db_session\<close> raises from a cause\<close>

section \<open>Decimal arithmetic\<close>

text \<open>
  The operations of Python's \<^verbatim>\<open>decimal\<close> module that the code uses, under the default
  context (precision 28, rounding \<^verbatim>\<open>ROUND_HALF_EVEN\<close>).
\<close>

fun dec_le_zero :: "decimal \<Rightarrow> bool" where
  "dec_le_zero (Decimal c e) = (c \<le> 0)"

fun dec_gt_int :: "decimal \<Rightarrow> int \<Rightarrow> bool" where
  "dec_gt_int (Decimal c e) n =
     (if 0 \<le> e then n < c * 10 ^ nat e else n * 10 ^ nat (- e) < c)"

text \<open>
  \<open>round_half_even c d\<close> is the integer nearest to \<open>c / d\<close> for \<open>d > 0\<close>, the even one of
  the two neighbours on a tie.
\<close>

definition round_half_even :: "int \<Rightarrow> int \<Rightarrow> int" where
  "round_half_even c d =
     (let q = c div d; r = c mod d
      in if d < 2 * r \<or> (2 * r = d \<and> odd q) then q + 1 else q)"

text \<open>
  \<^verbatim>\<open>x.quantize(y)\<close>: \<open>x\<close> rescaled to the exponent of \<open>y\<close>; \<^verbatim>\<open>InvalidOperation\<close> when
  the result would have more than 28 digits.
\<close>

fun quantize :: "decimal \<Rightarrow> decimal \<Rightarrow> error + decimal" where
  "quantize (Decimal c e) (Decimal c' e') =
     (let m = (if e' \<le> e then c * 10 ^ nat (e - e')
               else round_half_even c (10 ^ nat (e' - e)))
      in if 10 ^ 28 \<le> \<bar>m\<bar> then Inl InvalidOperation else Inr (Decimal m e'))"

text \<open>
  Multiplication by an integer and addition. Both are exact here: the rounding of a
  result of more than 28 digits to the context precision is not modelled.
\<close>

fun dec_mul_int :: "decimal \<Rightarrow> int \<Rightarrow> decimal" where
  "dec_mul_int (Decimal c e) n = Decimal (c * n) e"

fun dec_add :: "decimal \<Rightarrow> decimal \<Rightarrow> decimal" where
  "dec_add (Decimal c1 e1) (Decimal c2 e2) =
     (if e1 \<le> e2 then Decimal (c1 + c2 * 10 ^ nat (e2 - e1)) e1
      else Decimal (c1 * 10 ^ nat (e1 - e2) + c2) e2)"

section \<open>The session\<close>

text \<open>
  An \<^verbatim>\<open>AsyncSession\<close> is the datastore as committed and the view of the open transaction:
  the committed rows together with everything this session has added, changed or deleted.
  \<^verbatim>\<open>session.get\<close> reads the view, so an object changed earlier in the session is read
  back changed. The constraints of the schema are checked by the database engine when the
  session flushes; the engine's verdict on a view is the parameter \<open>chk\<close>. One session
  runs at a time: sessions that overlap in time are outside this model.

  Column defaults that are applied when a changed row is written are not part of the
  model: \<^verbatim>\<open>products.updated_at\<close> has \<^verbatim>\<open>onupdate=datetime.now\<close>, so a product row written
  with a changed stock is stamped with the time of the write, while here a row keeps the
  \<open>updated_at\<close> of the session's object unless the code assigns it. What is stated of a
  product row after an order has been committed is therefore its stock, not the whole
  row; a statement about the session's object is about the object as the code leaves it.
\<close>

record session =
  committed :: database
  pending :: database

definition flush :: "(database \<Rightarrow> bool) \<Rightarrow> session \<Rightarrow> error + session" where
  "flush chk s = (if chk (pending s) then Inr s else Inl IntegrityError)"

definition commit :: "(database \<Rightarrow> bool) \<Rightarrow> session \<Rightarrow> error + session" where
  "commit chk s =
     (case flush chk s of
        Inl e \<Rightarrow> Inl e
      | Inr s' \<Rightarrow> Inr (s'\<lparr>committed := pending s'\<rparr>))"

definition rollback :: "session \<Rightarrow> session" where
  "rollback s = s\<lparr>pending := committed s\<rparr>"

text \<open>
  \<^verbatim>\<open>provide_db_session\<close> (app/main.py): the handler runs on a fresh session; when it
  returns the session is committed, when it raises the session is rolled back and an
  \<^verbatim>\<open>HTTPException\<close> is raised from the cause. The result is the outcome and the datastore
  left behind.
\<close>

definition provide_db_session ::
  "(database \<Rightarrow> bool) \<Rightarrow> (session \<Rightarrow> (error + 'a) \<times> session) \<Rightarrow> database
     \<Rightarrow> (error + 'a) \<times> database" where
  "provide_db_session chk handler db =
     (case handler \<lparr>committed = db, pending = db\<rparr> of
        (Inl e, s) \<Rightarrow> (Inl (DatabaseOperationFailed e), committed (rollback s))
      | (Inr v, s) \<Rightarrow>
          (case commit chk s of
             Inl e \<Rightarrow> (Inl (DatabaseOperationFailed e), committed (rollback s))
           | Inr s' \<Rightarrow> (Inr v, committed s')))"

section \<open>Schemas\<close>

text \<open>
  The pydantic models of \<^verbatim>\<open>app/schemas\<close>. Constructing one runs its field validators in
  the order of the fields; the first validator that raises decides the error here (pydantic
  collects them all into one \<^verbatim>\<open>ValidationError\<close>).
\<close>

text \<open>\<^verbatim>\<open>str.strip()\<close>, on the ASCII white space.\<close>

definition isspace :: "char \<Rightarrow> bool" where
  "isspace c = (c \<in> set [CHR '' '', CHR 0x09, CHR 0x0A, CHR 0x0B, CHR 0x0C, CHR 0x0D])"

definition strip :: "string \<Rightarrow> string" where
  "strip v = rev (dropWhile isspace (rev (dropWhile isspace v)))"

record product_create =
  pc_label :: string
  pc_count_in_package :: int
  pc_count_in_warehouse :: int
  pc_price :: decimal

record product_update =
  pu_label :: "string option"
  pu_count_in_package :: "int option"
  pu_count_in_warehouse :: "int option"
  pu_price :: "decimal option"

definition validate_label :: "string \<Rightarrow> error + string" where
  "validate_label v =
     (let stripped = strip v
      in if length stripped < 3 then Inl LabelTooShort
         else if 100 < length stripped then Inl LabelTooLong
         else Inr stripped)"

definition validate_package_count :: "int \<Rightarrow> error + int" where
  "validate_package_count v =
     (if v < 1 then Inl PackageCountTooSmall
      else if 10000 < v then Inl PackageCountTooLarge
      else Inr v)"

definition validate_warehouse_count :: "int \<Rightarrow> error + int" where
  "validate_warehouse_count v = (if v < 0 then Inl WarehouseCountNegative else Inr v)"

definition validate_price :: "decimal \<Rightarrow> error + decimal" where
  "validate_price v =
     (if dec_le_zero v then Inl PriceNotPositive
      else if dec_gt_int v 1000000 then Inl PriceTooLarge
      else quantize v (Decimal 1 (- 2)))"

text \<open>\<^verbatim>\<open>ProductCreate(label=..., count_in_package=..., count_in_warehouse=..., price=...)\<close>\<close>

definition ProductCreate :: "string \<Rightarrow> int \<Rightarrow> int \<Rightarrow> decimal \<Rightarrow> error + product_create" where
  "ProductCreate l cp cw p =
     (case validate_label l of Inl e \<Rightarrow> Inl e | Inr l' \<Rightarrow>
      case validate_package_count cp of Inl e \<Rightarrow> Inl e | Inr cp' \<Rightarrow>
      case validate_warehouse_count cw of Inl e \<Rightarrow> Inl e | Inr cw' \<Rightarrow>
      case validate_price p of Inl e \<Rightarrow> Inl e | Inr p' \<Rightarrow>
        Inr \<lparr>pc_label = l', pc_count_in_package = cp',
             pc_count_in_warehouse = cw', pc_price = p'\<rparr>)"

text \<open>
  The validators of \<^verbatim>\<open>ProductUpdate\<close> let \<^verbatim>\<open>None\<close> through and are those of
  \<^verbatim>\<open>ProductBase\<close> otherwise.
\<close>

definition optional :: "('a \<Rightarrow> error + 'a) \<Rightarrow> 'a option \<Rightarrow> error + 'a option" where
  "optional validate v =
     (case v of
        None \<Rightarrow> Inr None
      | Some x \<Rightarrow> (case validate x of Inl e \<Rightarrow> Inl e | Inr x' \<Rightarrow> Inr (Some x')))"

definition ProductUpdate ::
  "string option \<Rightarrow> int option \<Rightarrow> int option \<Rightarrow> decimal option \<Rightarrow> error + product_update" where
  "ProductUpdate l cp cw p =
     (case optional validate_label l of Inl e \<Rightarrow> Inl e | Inr l' \<Rightarrow>
      case optional validate_package_count cp of Inl e \<Rightarrow> Inl e | Inr cp' \<Rightarrow>
      case optional validate_warehouse_count cw of Inl e \<Rightarrow> Inl e | Inr cw' \<Rightarrow>
      case optional validate_price p of Inl e \<Rightarrow> Inl e | Inr p' \<Rightarrow>
        Inr \<lparr>pu_label = l', pu_count_in_package = cp',
             pu_count_in_warehouse = cw', pu_price = p'\<rparr>)"

record order_item_create =
  item_product_id :: uuid
  item_quantity :: int

record order_create =
  oc_user_id :: uuid
  oc_address_id :: uuid
  oc_items :: "order_item_create list"

definition validate_quantity :: "int \<Rightarrow> error + int" where
  "validate_quantity v = (if v < 1 then Inl QuantityTooSmall else Inr v)"

definition OrderItemCreate :: "uuid \<Rightarrow> int \<Rightarrow> error + order_item_create" where
  "OrderItemCreate pid q =
     (case validate_quantity q of
        Inl e \<Rightarrow> Inl e
      | Inr q' \<Rightarrow> Inr \<lparr>item_product_id = pid, item_quantity = q'\<rparr>)"

definition validate_items :: "order_item_create list \<Rightarrow> error + order_item_create list" where
  "validate_items v = (if v = [] then Inl EmptyOrder else Inr v)"

text \<open>\<^verbatim>\<open>OrderCreate(user_id=..., address_id=..., items=[...])\<close>, the items given as raw pairs.\<close>

fun parse_items :: "(uuid \<times> int) list \<Rightarrow> error + order_item_create list" where
  "parse_items [] = Inr []"
| "parse_items ((pid, q) # rest) =
     (case OrderItemCreate pid q of Inl e \<Rightarrow> Inl e | Inr item \<Rightarrow>
      case parse_items rest of Inl e \<Rightarrow> Inl e | Inr items \<Rightarrow> Inr (item # items))"

definition OrderCreate :: "uuid \<Rightarrow> uuid \<Rightarrow> (uuid \<times> int) list \<Rightarrow> error + order_create" where
  "OrderCreate uid aid raw =
     (case parse_items raw of Inl e \<Rightarrow> Inl e | Inr items \<Rightarrow>
      case validate_items items of Inl e \<Rightarrow> Inl e | Inr items' \<Rightarrow>
        Inr \<lparr>oc_user_id = uid, oc_address_id = aid, oc_items = items'\<rparr>)"

section \<open>ProductRepository\<close>

definition ProductRepository_get_by_id :: "uuid \<Rightarrow> session \<Rightarrow> product option" where
  "ProductRepository_get_by_id pid s = products (pending s) pid"

definition set_product :: "uuid \<Rightarrow> product \<Rightarrow> session \<Rightarrow> session" where
  "set_product pid p s = s\<lparr>pending := (pending s)\<lparr>products := (products (pending s))(pid \<mapsto> p)\<rparr>\<rparr>"

text \<open>
  \<^verbatim>\<open>create\<close>: \<open>now\<close> is the clock and \<open>new_id\<close> the UUID that \<^verbatim>\<open>uuid4\<close> draws for the
  row; a row under that key already is a primary-key violation.
\<close>

definition ProductRepository_create ::
  "(database \<Rightarrow> bool) \<Rightarrow> datetime \<Rightarrow> uuid \<Rightarrow> product_create \<Rightarrow> session
     \<Rightarrow> (error + product) \<times> session" where
  "ProductRepository_create chk now new_id product_data s =
     (if dec_le_zero (pc_price product_data) then (Inl PriceNotPositive, s)
      else
        case quantize (pc_price product_data) (Decimal 1 (- 2)) of
          Inl e \<Rightarrow> (Inl e, s)
        | Inr p \<Rightarrow>
            let new_product =
                  \<lparr>label = pc_label product_data,
                   count_in_package = pc_count_in_package product_data,
                   count_in_warehouse = pc_count_in_warehouse product_data,
                   price = p, created_at = now, updated_at = now\<rparr>
            in if products (pending s) new_id \<noteq> None then (Inl IntegrityError, s)
               else
                 let s1 = set_product new_id new_product s
                 in case commit chk s1 of
                      Inl e \<Rightarrow> (Inl e, s1)
                    | Inr s2 \<Rightarrow> (Inr new_product, s2))"

text \<open>
  \<^verbatim>\<open>update\<close>: a field of the payload that is \<^verbatim>\<open>None\<close> (or was never set) leaves the
  column as it is.
\<close>

definition ProductRepository_update ::
  "(database \<Rightarrow> bool) \<Rightarrow> datetime \<Rightarrow> uuid \<Rightarrow> product_update \<Rightarrow> session
     \<Rightarrow> (error + product) \<times> session" where
  "ProductRepository_update chk now pid product_data s =
     (case ProductRepository_get_by_id pid s of
        None \<Rightarrow> (Inl (ProductNotFound pid), s)
      | Some product \<Rightarrow>
          (case (case pu_price product_data of
                   None \<Rightarrow> Inr None
                 | Some new_price \<Rightarrow>
                     if dec_le_zero new_price then Inl PriceNotPositive
                     else (case quantize new_price (Decimal 1 (- 2)) of
                             Inl e \<Rightarrow> Inl e
                           | Inr p \<Rightarrow> Inr (Some p))) of
             Inl e \<Rightarrow> (Inl e, s)
           | Inr new_price \<Rightarrow>
               let product' = product
                     \<lparr>label := (case pu_label product_data of
                                  None \<Rightarrow> label product | Some v \<Rightarrow> v),
                      count_in_package := (case pu_count_in_package product_data of
                                  None \<Rightarrow> count_in_package product | Some v \<Rightarrow> v),
                      count_in_warehouse := (case pu_count_in_warehouse product_data of
                                  None \<Rightarrow> count_in_warehouse product | Some v \<Rightarrow> v),
                      price := (case new_price of None \<Rightarrow> price product | Some v \<Rightarrow> v),
                      updated_at := now\<rparr>;
                   s1 = set_product pid product' s
               in case commit chk s1 of
                    Inl e \<Rightarrow> (Inl e, s1)
                  | Inr s2 \<Rightarrow> (Inr product', s2)))"

text \<open>
  \<^verbatim>\<open>delete\<close>: refused while an order item of an existing order refers to the product
  (the query joins \<^verbatim>\<open>OrderItem.order\<close>). Deleting the product deletes its order items
  with it (\<^verbatim>\<open>cascade="all, delete-orphan"\<close>).
\<close>

definition ProductRepository_delete ::
  "(database \<Rightarrow> bool) \<Rightarrow> uuid \<Rightarrow> session \<Rightarrow> (error + unit) \<times> session" where
  "ProductRepository_delete chk pid s =
     (case ProductRepository_get_by_id pid s of
        None \<Rightarrow> (Inl (ProductNotFound pid), s)
      | Some product \<Rightarrow>
          let active_orders =
                filter (\<lambda>item. product_id item = pid
                                \<and> order_id item \<in> set (map id_of_order (orders (pending s))))
                       (order_items (pending s))
          in if active_orders \<noteq> [] then (Inl ProductReferenced, s)
             else
               let s1 = s\<lparr>pending := (pending s)
                          \<lparr>products := (products (pending s))(pid := None),
                           order_items := filter (\<lambda>item. product_id item \<noteq> pid)
                                                 (order_items (pending s))\<rparr>\<rparr>
               in case commit chk s1 of
                    Inl e \<Rightarrow> (Inl e, s1)
                  | Inr s2 \<Rightarrow> (Inr (), s2))"

definition ProductRepository_update_stock ::
  "(database \<Rightarrow> bool) \<Rightarrow> uuid \<Rightarrow> int \<Rightarrow> session \<Rightarrow> (error + product) \<times> session" where
  "ProductRepository_update_stock chk pid quantity_change s =
     (case ProductRepository_get_by_id pid s of
        None \<Rightarrow> (Inl (ProductNotFound pid), s)
      | Some product \<Rightarrow>
          let new_stock = count_in_warehouse product + quantity_change
          in if new_stock < 0
             then (Inl (InsufficientStock (count_in_warehouse product) quantity_change), s)
             else
               let product' = product\<lparr>count_in_warehouse := new_stock\<rparr>;
                   s1 = set_product pid product' s
               in case commit chk s1 of
                    Inl e \<Rightarrow> (Inl e, s1)
                  | Inr s2 \<Rightarrow> (Inr product', s2))"

section \<open>OrderRepository\<close>

text \<open>
  One pass of the loop of \<^verbatim>\<open>create\<close> over \<^verbatim>\<open>order_data.items\<close>: the product is read
  through the session, the stock is checked, the order item is added with the product's
  price, the total is accumulated and the product's stock is lowered. The code assigns
  \<^verbatim>\<open>count_in_warehouse\<close> only; the \<open>updated_at\<close> that the write of the row will stamp is not
  modelled (see the session above).
\<close>

definition process_item ::
  "uuid \<Rightarrow> order_item_create \<Rightarrow> decimal \<Rightarrow> session \<Rightarrow> error + decimal \<times> session" where
  "process_item new_order_id item total_amount s =
     (case products (pending s) (item_product_id item) of
        None \<Rightarrow> Inl (ProductNotFound (item_product_id item))
      | Some product \<Rightarrow>
          if count_in_warehouse product < item_quantity item
          then Inl (NotEnoughStock (label product) (count_in_warehouse product)
                      (item_quantity item))
          else
            let order_item = \<lparr>order_id = new_order_id,
                              product_id = item_product_id item,
                              quantity = item_quantity item,
                              unit_price = price product\<rparr>;
                s1 = s\<lparr>pending := (pending s)
                        \<lparr>order_items := order_items (pending s) @ [order_item]\<rparr>\<rparr>;
                total_amount' =
                  dec_add total_amount (dec_mul_int (price product) (item_quantity item));
                s2 = set_product (item_product_id item)
                       (product\<lparr>count_in_warehouse :=
                                  count_in_warehouse product - item_quantity item\<rparr>) s1
            in Inr (total_amount', s2))"

fun process_items ::
  "uuid \<Rightarrow> order_item_create list \<Rightarrow> decimal \<Rightarrow> session \<Rightarrow> (error + decimal) \<times> session" where
  "process_items new_order_id [] total_amount s = (Inr total_amount, s)"
| "process_items new_order_id (item # rest) total_amount s =
     (case process_item new_order_id item total_amount s of
        Inl e \<Rightarrow> (Inl e, s)
      | Inr (total_amount', s') \<Rightarrow> process_items new_order_id rest total_amount' s')"

text \<open>
  \<^verbatim>\<open>create\<close>: the order header is added and flushed, the lines are processed, the
  session is committed. The accumulated total is dropped, as in the source (the line that
  would store it is commented out). The result is the new order with its items.
\<close>

definition OrderRepository_create ::
  "(database \<Rightarrow> bool) \<Rightarrow> uuid \<Rightarrow> order_create \<Rightarrow> session
     \<Rightarrow> (error + order \<times> order_item list) \<times> session" where
  "OrderRepository_create chk new_id order_data s =
     (let new_order = \<lparr>id_of_order = new_id,
                       order_user_id = oc_user_id order_data,
                       order_address_id = oc_address_id order_data\<rparr>
      in if new_id \<in> set (map id_of_order (orders (pending s))) then (Inl IntegrityError, s)
         else
           let s1 = s\<lparr>pending := (pending s)\<lparr>orders := orders (pending s) @ [new_order]\<rparr>\<rparr>
           in case flush chk s1 of
                Inl e \<Rightarrow> (Inl e, s1)
              | Inr s2 \<Rightarrow>
                  (case process_items new_id (oc_items order_data) (Decimal 0 (- 2)) s2 of
                     (Inl e, s3) \<Rightarrow> (Inl e, s3)
                   | (Inr total_amount, s3) \<Rightarrow>
                       (case commit chk s3 of
                          Inl e \<Rightarrow> (Inl e, s3)
                        | Inr s4 \<Rightarrow>
                            (Inr (new_order,
                                  filter (\<lambda>item. order_id item = new_id)
                                         (order_items (pending s4))), s4))))"

text \<open>
  An order placed as one unit of work: \<^verbatim>\<open>OrderRepository.create\<close> on a session that
  \<^verbatim>\<open>provide_db_session\<close> provides, as a request handler receives it.
\<close>

definition create_order ::
  "(database \<Rightarrow> bool) \<Rightarrow> uuid \<Rightarrow> order_create \<Rightarrow> database
     \<Rightarrow> (error + order \<times> order_item list) \<times> database" where
  "create_order chk new_id order_data db =
     provide_db_session chk (OrderRepository_create chk new_id order_data) db"

section \<open>AddressRepository\<close>

text \<open>The validated payloads \<^verbatim>\<open>AddressCreate\<close> and \<^verbatim>\<open>AddressUpdate\<close>.\<close>

record address_create =
  ac_user_id :: uuid
  ac_street :: string
  ac_city :: string
  ac_state :: "string option"
  ac_zip_code :: string
  ac_country :: string
  ac_is_primary :: bool

record address_update =
  au_street :: "string option"
  au_city :: "string option"
  au_state :: "string option"
  au_zip_code :: "string option"
  au_country :: "string option"
  au_is_primary :: "bool option"

text \<open>
  \<^verbatim>\<open>UPDATE addresses SET is_primary = false WHERE user_id = :uid AND is_primary\<close>, with
  the further condition \<open>keep\<close> on the primary key that \<^verbatim>\<open>update\<close> adds
  (\<^verbatim>\<open>Address.id != address_id\<close>).
\<close>

definition clear_primary :: "uuid \<Rightarrow> (uuid \<Rightarrow> bool) \<Rightarrow> session \<Rightarrow> session" where
  "clear_primary uid keep s =
     s\<lparr>pending := (pending s)
        \<lparr>addresses := (\<lambda>k. map_option
            (\<lambda>a. if user_id a = uid \<and> is_primary a \<and> keep k then a\<lparr>is_primary := False\<rparr> else a)
            (addresses (pending s) k))\<rparr>\<rparr>"

definition set_address :: "uuid \<Rightarrow> address \<Rightarrow> session \<Rightarrow> session" where
  "set_address aid a s =
     s\<lparr>pending := (pending s)\<lparr>addresses := (addresses (pending s))(aid \<mapsto> a)\<rparr>\<rparr>"

definition AddressRepository_create ::
  "(database \<Rightarrow> bool) \<Rightarrow> uuid \<Rightarrow> address_create \<Rightarrow> session
     \<Rightarrow> (error + uuid \<times> address) \<times> session" where
  "AddressRepository_create chk new_id address_data s =
     (let s1 = (if ac_is_primary address_data
                then clear_primary (ac_user_id address_data) (\<lambda>k. True) s else s);
          new_address = \<lparr>user_id = ac_user_id address_data,
                         street = ac_street address_data,
                         city = ac_city address_data,
                         state = ac_state address_data,
                         zip_code = ac_zip_code address_data,
                         country = ac_country address_data,
                         is_primary = ac_is_primary address_data\<rparr>
      in if addresses (pending s1) new_id \<noteq> None then (Inl IntegrityError, s1)
         else
           let s2 = set_address new_id new_address s1
           in case commit chk s2 of
                Inl e \<Rightarrow> (Inl e, s2)
              | Inr s3 \<Rightarrow> (Inr (new_id, new_address), s3))"

definition AddressRepository_update ::
  "(database \<Rightarrow> bool) \<Rightarrow> uuid \<Rightarrow> address_update \<Rightarrow> session
     \<Rightarrow> (error + uuid \<times> address) \<times> session" where
  "AddressRepository_update chk address_id address_data s =
     (case addresses (pending s) address_id of
        None \<Rightarrow> (Inl (AddressNotFound address_id), s)
      | Some address \<Rightarrow>
          let s1 = (if au_is_primary address_data = Some True
                    then clear_primary (user_id address) (\<lambda>k. k \<noteq> address_id) s else s);
              address' = address
                \<lparr>street := (case au_street address_data of
                              None \<Rightarrow> street address | Some v \<Rightarrow> v),
                 city := (case au_city address_data of
                              None \<Rightarrow> city address | Some v \<Rightarrow> v),
                 state := (case au_state address_data of
                              None \<Rightarrow> state address | Some v \<Rightarrow> Some v),
                 zip_code := (case au_zip_code address_data of
                              None \<Rightarrow> zip_code address | Some v \<Rightarrow> v),
                 country := (case au_country address_data of
                              None \<Rightarrow> country address | Some v \<Rightarrow> v),
                 is_primary := (case au_is_primary address_data of
                              None \<Rightarrow> is_primary address | Some v \<Rightarrow> v)\<rparr>;
              s2 = set_address address_id address' s1
          in case commit chk s2 of
               Inl e \<Rightarrow> (Inl e, s2)
             | Inr s3 \<Rightarrow> (Inr (address_id, address'), s3))"

text \<open>
  \<^verbatim>\<open>delete\<close>: refused while an order refers to the address. (The source imports
  \<^verbatim>\<open>Order\<close> inside the function; the import is taken to resolve to the model.)
\<close>

definition AddressRepository_delete ::
  "(database \<Rightarrow> bool) \<Rightarrow> uuid \<Rightarrow> session \<Rightarrow> (error + unit) \<times> session" where
  "AddressRepository_delete chk address_id s =
     (case addresses (pending s) address_id of
        None \<Rightarrow> (Inl (AddressNotFound address_id), s)
      | Some address \<Rightarrow>
          let order_count =
                length (filter (\<lambda>order. order_address_id order = address_id)
                               (orders (pending s)))
          in if 0 < order_count then (Inl AddressInUse, s)
             else
               let s1 = s\<lparr>pending := (pending s)
                          \<lparr>addresses := (addresses (pending s))(address_id := None)\<rparr>\<rparr>
               in case commit chk s1 of
                    Inl e \<Rightarrow> (Inl e, s1)
                  | Inr s2 \<Rightarrow> (Inr (), s2))"

section \<open>UserRepository and UserService\<close>

text \<open>
  The payload of a user update. The class \<^verbatim>\<open>UserUpdate\<close> declares \<^verbatim>\<open>username\<close> and
  \<^verbatim>\<open>description\<close>; the service also looks for an attribute \<^verbatim>\<open>email\<close>
  (\<^verbatim>\<open>hasattr(user_data, 'email')\<close>), which an object built without validation can carry.
  \<open>uu_email\<close> is that attribute, \<open>None\<close> when it is missing or \<^verbatim>\<open>None\<close>.
\<close>

record user_update =
  uu_username :: "string option"
  uu_description :: "string option"
  uu_email :: "string option"

definition validate_username :: "string option \<Rightarrow> error + string option" where
  "validate_username v =
     (case v of
        None \<Rightarrow> Inr None
      | Some n \<Rightarrow> if length n < 3 then Inl UsernameInvalid else Inr (Some n))"

text \<open>\<^verbatim>\<open>UserUpdate(username=..., description=...)\<close>: the validated object has no email.\<close>

definition UserUpdate :: "string option \<Rightarrow> string option \<Rightarrow> error + user_update" where
  "UserUpdate u d =
     (case validate_username u of
        Inl e \<Rightarrow> Inl e
      | Inr u' \<Rightarrow> Inr \<lparr>uu_username = u', uu_description = d, uu_email = None\<rparr>)"

definition UserRepository_get_by_id :: "uuid \<Rightarrow> session \<Rightarrow> user option" where
  "UserRepository_get_by_id uid s = users (pending s) uid"

text \<open>\<^verbatim>\<open>update\<close> applies the declared fields of the payload that are not \<^verbatim>\<open>None\<close>.\<close>

definition UserRepository_update ::
  "(database \<Rightarrow> bool) \<Rightarrow> uuid \<Rightarrow> user_update \<Rightarrow> session \<Rightarrow> (error + user) \<times> session" where
  "UserRepository_update chk uid user_data s =
     (case UserRepository_get_by_id uid s of
        None \<Rightarrow> (Inl (UserNotFound uid), s)
      | Some user \<Rightarrow>
          let user' = user
                \<lparr>username := (case uu_username user_data of
                                None \<Rightarrow> username user | Some v \<Rightarrow> v),
                 description := (case uu_description user_data of
                                None \<Rightarrow> description user | Some v \<Rightarrow> Some v)\<rparr>;
              s1 = s\<lparr>pending := (pending s)\<lparr>users := (users (pending s))(uid \<mapsto> user')\<rparr>\<rparr>
          in case commit chk s1 of
               Inl e \<Rightarrow> (Inl e, s1)
             | Inr s2 \<Rightarrow> (Inr user', s2))"

definition UserRepository_delete ::
  "(database \<Rightarrow> bool) \<Rightarrow> uuid \<Rightarrow> session \<Rightarrow> (error + unit) \<times> session" where
  "UserRepository_delete chk uid s =
     (case UserRepository_get_by_id uid s of
        None \<Rightarrow> (Inl (UserNotFound uid), s)
      | Some user \<Rightarrow>
          let s1 = s\<lparr>pending := (pending s)\<lparr>users := (users (pending s))(uid := None)\<rparr>\<rparr>
          in case commit chk s1 of
               Inl e \<Rightarrow> (Inl e, s1)
             | Inr s2 \<Rightarrow> (Inr (), s2))"

text \<open>
  \<^verbatim>\<open>UserService.update\<close>: \<^verbatim>\<open>user_data.username and len(user_data.username) < 3\<close> is
  false for a missing and for an empty username.
\<close>

definition UserService_update ::
  "(database \<Rightarrow> bool) \<Rightarrow> uuid \<Rightarrow> user_update \<Rightarrow> session \<Rightarrow> (error + user) \<times> session" where
  "UserService_update chk uid user_data s =
     (if (case uu_username user_data of
            None \<Rightarrow> False
          | Some v \<Rightarrow> v \<noteq> [] \<and> length v < 3)
      then (Inl UsernameTooShort, s)
      else if uu_email user_data \<noteq> None then (Inl EmailImmutable, s)
      else UserRepository_update chk uid user_data s)"

text \<open>\<^verbatim>\<open>UserService.delete\<close>: \<^verbatim>\<open>user.orders\<close> are the orders whose user is this one.\<close>

definition UserService_delete ::
  "(database \<Rightarrow> bool) \<Rightarrow> uuid \<Rightarrow> session \<Rightarrow> (error + unit) \<times> session" where
  "UserService_delete chk uid s =
     (case UserRepository_get_by_id uid s of
        None \<Rightarrow> (Inl (UserNotFound uid), s)
      | Some user \<Rightarrow>
          if filter (\<lambda>order. order_user_id order = uid) (orders (pending s)) \<noteq> []
          then (Inl UserHasOrders, s)
          else UserRepository_delete chk uid s)"

section \<open>Operations as the application runs them\<close>

text \<open>
  A request builds the payload through its schema, which can refuse it, and runs the
  repository method on a session of \<^verbatim>\<open>provide_db_session\<close>. An operation is a request with
  the values the environment supplies (the clock, the UUID drawn for a new row).
\<close>

datatype operation =
    CreateProduct datetime uuid string int int decimal
  | UpdateProduct datetime uuid "string option" "int option" "int option" "decimal option"
  | UpdateStock uuid int
  | CreateOrder uuid uuid uuid "(uuid \<times> int) list"

definition outcome :: "(error + 'a) \<times> database \<Rightarrow> error option \<times> database" where
  "outcome r = (case r of (Inl e, db) \<Rightarrow> (Some e, db) | (Inr v, db) \<Rightarrow> (None, db))"

fun run_operation ::
  "(database \<Rightarrow> bool) \<Rightarrow> operation \<Rightarrow> database \<Rightarrow> error option \<times> database" where
  "run_operation chk (CreateProduct now new_id l cp cw p) db =
     (case ProductCreate l cp cw p of
        Inl e \<Rightarrow> (Some e, db)
      | Inr product_data \<Rightarrow>
          outcome (provide_db_session chk
                     (ProductRepository_create chk now new_id product_data) db))"
| "run_operation chk (UpdateProduct now pid l cp cw p) db =
     (case ProductUpdate l cp cw p of
        Inl e \<Rightarrow> (Some e, db)
      | Inr product_data \<Rightarrow>
          outcome (provide_db_session chk
                     (ProductRepository_update chk now pid product_data) db))"
| "run_operation chk (UpdateStock pid quantity_change) db =
     outcome (provide_db_session chk
                (ProductRepository_update_stock chk pid quantity_change) db)"
| "run_operation chk (CreateOrder new_id uid aid raw) db =
     (case OrderCreate uid aid raw of
        Inl e \<Rightarrow> (Some e, db)
      | Inr order_data \<Rightarrow> outcome (create_order chk new_id order_data db))"

fun run_operations :: "(database \<Rightarrow> bool) \<Rightarrow> operation list \<Rightarrow> database \<Rightarrow> database" where
  "run_operations chk [] db = db"
| "run_operations chk (operation # rest) db =
     run_operations chk rest (snd (run_operation chk operation db))"

section \<open>Properties stated by the specification\<close>

text \<open>No product has a negative stock.\<close>

definition stock_nonneg :: "database \<Rightarrow> bool" where
  "stock_nonneg db = (\<forall>pid p. products db pid = Some p \<longrightarrow> 0 \<le> count_in_warehouse p)"

text \<open>
  A line of an order that cannot be served from the datastore as it is: the product is
  missing or its stock is below the quantity asked for.
\<close>

definition line_fails :: "database \<Rightarrow> order_item_create \<Rightarrow> bool" where
  "line_fails db item =
     (case products db (item_product_id item) of
        None \<Rightarrow> True
      | Some p \<Rightarrow> count_in_warehouse p < item_quantity item)"

text \<open>The quantity that the lines of one call ask of one product.\<close>

definition requested :: "uuid \<Rightarrow> order_item_create list \<Rightarrow> int" where
  "requested pid items =
     sum_list (map item_quantity (filter (\<lambda>item. item_product_id item = pid) items))"

text \<open>
  The sum of \<open>quantity * unit_price\<close> over order items, added up from \<open>start\<close> in the
  order of the items, as the loop of \<^verbatim>\<open>create\<close> adds up its total.
\<close>

definition line_totals :: "decimal \<Rightarrow> order_item list \<Rightarrow> decimal" where
  "line_totals start items =
     foldl (\<lambda>total item. dec_add total (dec_mul_int (unit_price item) (quantity item)))
           start items"

text \<open>
  Modelled from the spec: the total of an order computed at read time, the sum of
  \<open>quantity * unit_price\<close> over its items (section 4.3, step 5). The repository's read
  path returns the items and computes no total.
\<close>

definition order_total :: "database \<Rightarrow> uuid \<Rightarrow> decimal" where
  "order_total db oid =
     line_totals (Decimal 0 (- 2)) (filter (\<lambda>item. order_id item = oid) (order_items db))"

text \<open>At most one address of user \<open>uid\<close> is primary.\<close>

definition at_most_one_primary :: "database \<Rightarrow> uuid \<Rightarrow> bool" where
  "at_most_one_primary db uid =
     (\<forall>i j a b. addresses db i = Some a \<and> addresses db j = Some b
         \<and> user_id a = uid \<and> user_id b = uid \<and> is_primary a \<and> is_primary b \<longrightarrow> i = j)"

text \<open>
  The foreign key of \<^verbatim>\<open>order_items.order_id\<close>: every order item belongs to an order of
  the datastore.
\<close>

definition items_have_orders :: "database \<Rightarrow> bool" where
  "items_have_orders db =
     (\<forall>item \<in> set (order_items db). order_id item \<in> set (map id_of_order (orders db)))"

text \<open>
  \<open>d\<close> is \<open>v\<close> rounded to the exponent \<open>e\<close>, half to even: the coefficient of \<open>d\<close> is an
  integer nearest to \<open>v / 10 ^ e\<close> and, when two integers are equally near, the even one.
  Stated on integers, with \<open>v\<close> and \<open>d\<close> brought to the smaller of the two exponents.
\<close>

definition is_half_even_rounding :: "decimal \<Rightarrow> int \<Rightarrow> decimal \<Rightarrow> bool" where
  "is_half_even_rounding v e d =
     (exponent d = e \<and>
      (let k = min (exponent v) e;
           x = coefficient v * 10 ^ nat (exponent v - k);
           y = coefficient d * 10 ^ nat (e - k);
           u = 10 ^ nat (e - k)
       in 2 * \<bar>y - x\<bar> \<le> u \<and> (2 * \<bar>y - x\<bar> = u \<longrightarrow> even (coefficient d))))"

section \<open>Example data\<close>

definition widget :: product where
  "widget = \<lparr>label = ''Widget'', count_in_package = 1, count_in_warehouse = 100,
            price = Decimal 1000 (- 2), created_at = 0, updated_at = 0\<rparr>"

definition gadget :: product where
  "gadget = \<lparr>label = ''Gadget'', count_in_package = 1, count_in_warehouse = 5,
            price = Decimal 1550 (- 2), created_at = 0, updated_at = 0\<rparr>"

definition alice :: user where
  "alice = \<lparr>username = ''alice'', email = ''alice@example.com'', description = None\<rparr>"

definition home :: address where
  "home = \<lparr>user_id = 1, street = ''1 Main St'', city = ''Springfield'', state = None,
          zip_code = ''12345'', country = ''USA'', is_primary = True\<rparr>"

definition office :: address where
  "office = \<lparr>user_id = 1, street = ''2 High St'', city = ''Springfield'', state = None,
            zip_code = ''12345'', country = ''USA'', is_primary = False\<rparr>"

text \<open>
  A datastore with one user, two addresses, two products and one order of three widgets.
\<close>

definition shop :: database where
  "shop = \<lparr>users = [1 \<mapsto> alice],
          addresses = [10 \<mapsto> home, 11 \<mapsto> office],
          products = [100 \<mapsto> widget, 101 \<mapsto> gadget],
          orders = [\<lparr>id_of_order = 1000, order_user_id = 1, order_address_id = 10\<rparr>],
          order_items = [\<lparr>order_id = 1000, product_id = 100, quantity = 3,
                          unit_price = Decimal 1000 (- 2)\<rparr>]\<rparr>"

text \<open>An engine that accepts every flush.\<close>

definition accept :: "database \<Rightarrow> bool" where
  "accept db = True"

text \<open>
  Payloads for the examples: orders, a price with three fractional digits, a day of
  operations, addresses and user updates.
\<close>

definition two_lines :: order_create where
  "two_lines = \<lparr>oc_user_id = 1, oc_address_id = 10,
                oc_items = [\<lparr>item_product_id = 100, item_quantity = 2\<rparr>,
                            \<lparr>item_product_id = 101, item_quantity = 999999\<rparr>]\<rparr>"

definition three_widgets :: order_item_create where
  "three_widgets = \<lparr>item_product_id = 100, item_quantity = 3\<rparr>"

definition sixty_then_forty :: order_create where
  "sixty_then_forty = \<lparr>oc_user_id = 1, oc_address_id = 10,
                  oc_items = [\<lparr>item_product_id = 100, item_quantity = 60\<rparr>,
                              \<lparr>item_product_id = 100, item_quantity = 40\<rparr>]\<rparr>"

definition raise_price :: product_update where
  "raise_price = \<lparr>pu_label = None, pu_count_in_package = None,
                 pu_count_in_warehouse = None, pu_price = Some (Decimal 12345 (- 3))\<rparr>"

definition busy_day :: "operation list" where
  "busy_day = [UpdateStock 100 (- 150),
               CreateOrder 1001 1 10 [(100, 3)],
               UpdateStock 100 (- 97)]"

definition summer_house :: address_create where
  "summer_house = \<lparr>ac_user_id = 1, ac_street = ''3 Lake Rd'', ac_city = ''Shelbyville'',
                   ac_state = None, ac_zip_code = ''54321'', ac_country = ''USA'',
                   ac_is_primary = True\<rparr>"

definition make_primary :: address_update where
  "make_primary = \<lparr>au_street = None, au_city = None, au_state = None, au_zip_code = None,
                   au_country = None, au_is_primary = Some True\<rparr>"

definition gizmo :: product_create where
  "gizmo = \<lparr>pc_label = ''Gizmo'', pc_count_in_package = 2, pc_count_in_warehouse = 7,
            pc_price = Decimal 12355 (- 3)\<rparr>"

definition email_and_short_name :: user_update where
  "email_and_short_name = \<lparr>uu_username = Some ''al'', uu_description = None,
                           uu_email = Some ''new@example.com''\<rparr>"

definition email_only :: user_update where
  "email_only = \<lparr>uu_username = None, uu_description = None,
                 uu_email = Some ''new@example.com''\<rparr>"

definition rename_alice :: user_update where
  "rename_alice = \<lparr>uu_username = Some ''alicia'', uu_description = None, uu_email = None\<rparr>"

definition sixty_widgets :: order_create where
  "sixty_widgets = \<lparr>oc_user_id = 1, oc_address_id = 10,
                    oc_items = [\<lparr>item_product_id = 100, item_quantity = 60\<rparr>]\<rparr>"

section \<open>The session and the unit of work\<close>

lemma commit_Inr: "commit chk s = Inr s' \<Longrightarrow> chk (pending s) \<and> s' = s\<lparr>committed := pending s\<rparr>"
  by (auto simp: commit_def flush_def split: if_splits)

lemma commit_Inl: "commit chk s = Inl e \<Longrightarrow> \<not> chk (pending s) \<and> e = IntegrityError"
  by (auto simp: commit_def flush_def split: if_splits)

lemma process_item_committed:
  "process_item oid item t s = Inr (t', s') \<Longrightarrow> committed s' = committed s"
  by (auto simp: process_item_def set_product_def Let_def split: option.splits if_splits)

lemma process_items_committed:
  "process_items oid items t s = (r, s') \<Longrightarrow> committed s' = committed s"
proof (induction items arbitrary: t s)
  case Nil
  then show ?case by simp
next
  case (Cons item rest)
  show ?case
  proof (cases "process_item oid item t s")
    case (Inl e)
    with Cons.prems show ?thesis by simp
  next
    case (Inr p)
    obtain t1 s1 where p: "p = (t1, s1)" by (cases p)
    from Cons.prems Inr p have "process_items oid rest t1 s1 = (r, s')" by simp
    from Cons.IH [OF this] process_item_committed [of oid item t s t1 s1] Inr p
    show ?thesis by simp
  qed
qed

lemma OrderRepository_create_Inl:
  assumes "OrderRepository_create chk new_id order_data s = (Inl e, s')"
  shows "committed s' = committed s"
  using assms
  by (auto simp: OrderRepository_create_def Let_def flush_def
           dest!: process_items_committed commit_Inl commit_Inr
           split: if_splits sum.splits prod.splits)

lemma OrderRepository_create_Inr:
  assumes "OrderRepository_create chk new_id order_data s = (Inr v, s')"
  shows "chk (pending s') \<and> committed s' = pending s'"
  using assms
  by (auto simp: OrderRepository_create_def Let_def flush_def
           dest!: commit_Inl commit_Inr
           split: if_splits sum.splits prod.splits)

lemma create_order_failure:
  assumes "create_order chk new_id order_data db = (Inl e, db')"
  shows "db' = db"
proof (cases "OrderRepository_create chk new_id order_data \<lparr>committed = db, pending = db\<rparr>")
  case (Pair r s)
  show ?thesis
  proof (cases r)
    case (Inl e')
    with Pair OrderRepository_create_Inl [of chk new_id order_data _ e' s] assms
    show ?thesis by (auto simp: create_order_def provide_db_session_def rollback_def)
  next
    case (Inr v)
    with Pair OrderRepository_create_Inr [of chk new_id order_data _ v s]
    have "chk (pending s)" by simp
    then obtain s' where "commit chk s = Inr s'" by (auto simp: commit_def flush_def)
    with Pair Inr assms show ?thesis
      by (auto simp: create_order_def provide_db_session_def)
  qed
qed

lemma process_item_Inr:
  assumes "process_item oid item t s = Inr (t', s')"
  obtains p where "products (pending s) (item_product_id item) = Some p"
    and "item_quantity item \<le> count_in_warehouse p"
    and "t' = dec_add t (dec_mul_int (price p) (item_quantity item))"
    and "s' = s\<lparr>pending := (pending s)
               \<lparr>order_items := order_items (pending s) @
                   [\<lparr>order_id = oid, product_id = item_product_id item,
                     quantity = item_quantity item, unit_price = price p\<rparr>],
                products := (products (pending s))(item_product_id item \<mapsto>
                   p\<lparr>count_in_warehouse := count_in_warehouse p - item_quantity item\<rparr>)\<rparr>\<rparr>"
  using assms
  by (auto simp: process_item_def set_product_def Let_def split: option.splits if_splits)

lemma process_items_lines_ok:
  assumes "process_items oid items t s = (Inr t', s')"
    and "\<forall>item \<in> set items. 0 \<le> item_quantity item"
  shows "\<forall>item \<in> set items. \<exists>p. products (pending s) (item_product_id item) = Some p
            \<and> item_quantity item \<le> count_in_warehouse p"
  using assms
proof (induction items arbitrary: t s)
  case Nil
  then show ?case by simp
next
  case (Cons item rest)
  from Cons.prems(1) obtain t1 s1 where
    h: "process_item oid item t s = Inr (t1, s1)" and r: "process_items oid rest t1 s1 = (Inr t', s')"
    by (auto split: sum.splits)
  from h obtain p where p: "products (pending s) (item_product_id item) = Some p"
    "item_quantity item \<le> count_in_warehouse p"
    and s1: "products (pending s1) = (products (pending s))(item_product_id item \<mapsto>
                   p\<lparr>count_in_warehouse := count_in_warehouse p - item_quantity item\<rparr>)"
    by (elim process_item_Inr) simp
  from Cons.prems(2) have q0: "0 \<le> item_quantity item" and qs: "\<forall>i \<in> set rest. 0 \<le> item_quantity i"
    by simp_all
  have "\<exists>p'. products (pending s) (item_product_id i) = Some p'
            \<and> item_quantity i \<le> count_in_warehouse p'" if "i \<in> set rest" for i
  proof -
    from Cons.IH [OF r qs] that obtain p1 where
      p1: "products (pending s1) (item_product_id i) = Some p1"
          "item_quantity i \<le> count_in_warehouse p1" by blast
    show ?thesis
    proof (cases "item_product_id i = item_product_id item")
      case True
      with p1 s1 q0 p show ?thesis by auto
    next
      case False
      with p1 s1 show ?thesis by auto
    qed
  qed
  with p show ?case by auto
qed

lemma create_order_line_failure:
  assumes "\<forall>item \<in> set (oc_items order_data). 1 \<le> item_quantity item"
    and "\<exists>item \<in> set (oc_items order_data). line_fails db item"
  shows "isl (fst (create_order chk new_id order_data db))"
proof (rule ccontr)
  assume "\<not> isl (fst (create_order chk new_id order_data db))"
  then obtain v where "fst (create_order chk new_id order_data db) = Inr v"
    by (cases "fst (create_order chk new_id order_data db)") simp_all
  then obtain db' where ok: "create_order chk new_id order_data db = (Inr v, db')"
    by (cases "create_order chk new_id order_data db") simp
  define s0 where "s0 = \<lparr>committed = db, pending = db\<rparr>"
  from ok obtain v' s' where "OrderRepository_create chk new_id order_data s0 = (Inr v', s')"
    by (auto simp: create_order_def provide_db_session_def s0_def split: prod.splits sum.splits)
  then obtain t' s3 where
    "process_items new_id (oc_items order_data) (Decimal 0 (- 2))
        (s0\<lparr>pending := (pending s0)\<lparr>orders := orders (pending s0) @
            [\<lparr>id_of_order = new_id, order_user_id = oc_user_id order_data,
              order_address_id = oc_address_id order_data\<rparr>]\<rparr>\<rparr>) = (Inr t', s3)"
    by (auto simp: OrderRepository_create_def Let_def flush_def
             split: if_splits sum.splits prod.splits)
  from process_items_lines_ok [OF this] assms(1)
  have "\<forall>item \<in> set (oc_items order_data). \<exists>p. products db (item_product_id item) = Some p
            \<and> item_quantity item \<le> count_in_warehouse p"
    by (simp add: s0_def) (metis order_trans zero_le_one)
  with assms(2) show False by (auto simp: line_fails_def)
qed

text \<open>
  C1. A call of \<^verbatim>\<open>create_order\<close> that fails, for whatever reason, leaves the datastore as
  it was before the call: no order header, no order item and no stock decrement of the
  call remains, those of the lines before the failing one included. A call with validated
  quantities in which a line names a missing product, or asks for more than the stock of
  its product, does fail.
\<close>

theorem create_order_failure_restores_datastore:
  "(isl (fst (create_order chk new_id order_data db))
      \<longrightarrow> snd (create_order chk new_id order_data db) = db)
   \<and> ((\<forall>item \<in> set (oc_items order_data). 1 \<le> item_quantity item)
        \<and> (\<exists>item \<in> set (oc_items order_data). line_fails db item)
      \<longrightarrow> isl (fst (create_order chk new_id order_data db)))"
proof (intro conjI impI)
  assume "isl (fst (create_order chk new_id order_data db))"
  then obtain e where "fst (create_order chk new_id order_data db) = Inl e"
    by (auto simp: isl_def)
  then have "create_order chk new_id order_data db
               = (Inl e, snd (create_order chk new_id order_data db))"
    by (metis prod.collapse)
  then show "snd (create_order chk new_id order_data db) = db"
    by (rule create_order_failure)
next
  assume "(\<forall>item \<in> set (oc_items order_data). 1 \<le> item_quantity item)
        \<and> (\<exists>item \<in> set (oc_items order_data). line_fails db item)"
  then show "isl (fst (create_order chk new_id order_data db))"
    using create_order_line_failure by blast
qed

theorem create_order_failure_restores_datastore_witness:
  "list_all (\<lambda>item. 1 \<le> item_quantity item) (oc_items two_lines)
   \<and> list_ex (line_fails shop) (oc_items two_lines)
   \<and> fst (create_order accept 1001 two_lines shop)
       = Inl (DatabaseOperationFailed (NotEnoughStock ''Gadget'' 5 999999))
   \<and> snd (create_order accept 1001 two_lines shop) = shop"
proof -
  have h1: "\<forall>item \<in> set (oc_items two_lines). 1 \<le> item_quantity item"
    by (simp add: two_lines_def)
  have h2: "\<exists>item \<in> set (oc_items two_lines). line_fails shop item"
    by (simp add: two_lines_def line_fails_def shop_def gadget_def)
  have h3: "fst (create_order accept 1001 two_lines shop)
       = Inl (DatabaseOperationFailed (NotEnoughStock ''Gadget'' 5 999999))"
    by (simp add: create_order_def provide_db_session_def OrderRepository_create_def
          flush_def accept_def process_item_def set_product_def two_lines_def shop_def
          widget_def gadget_def)
  from create_order_failure_restores_datastore [of accept 1001 two_lines shop] h1 h2 h3
  show ?thesis by (simp add: list_all_iff list_ex_iff)
qed

text \<open>
  C4. One line of an order, processed by the loop of \<^verbatim>\<open>OrderRepository.create\<close>: a
  missing product is reported by its id; for a product that the session holds, the line
  succeeds exactly when the product's current stock is at least the quantity; a refused
  line reports the product (by its label), the stock available and the quantity requested;
  an accepted line lowers the stock by exactly the quantity and adds an order item that
  carries the quantity and the product's current price as its unit price.
\<close>

theorem process_item_reserves_stock:
  "(products (pending s) (item_product_id item) = None
      \<longrightarrow> process_item oid item total_amount s = Inl (ProductNotFound (item_product_id item)))
   \<and> (\<forall>p. products (pending s) (item_product_id item) = Some p \<longrightarrow>
        ((\<exists>r. process_item oid item total_amount s = Inr r)
            \<longleftrightarrow> item_quantity item \<le> count_in_warehouse p)
        \<and> (count_in_warehouse p < item_quantity item \<longrightarrow>
             process_item oid item total_amount s
               = Inl (NotEnoughStock (label p) (count_in_warehouse p) (item_quantity item)))
        \<and> (item_quantity item \<le> count_in_warehouse p \<longrightarrow>
             (\<exists>total' s'. process_item oid item total_amount s = Inr (total', s')
                \<and> products (pending s') =
                    (products (pending s))(item_product_id item \<mapsto>
                       p\<lparr>count_in_warehouse := count_in_warehouse p - item_quantity item\<rparr>)
                \<and> order_items (pending s') = order_items (pending s) @
                     [\<lparr>order_id = oid, product_id = item_product_id item,
                       quantity = item_quantity item, unit_price = price p\<rparr>])))"
  by (simp add: process_item_def set_product_def Let_def)

theorem process_item_reserves_stock_witness:
  "products shop (item_product_id three_widgets) = Some widget
   \<and> item_quantity three_widgets \<le> count_in_warehouse widget
   \<and> (\<exists>total' s'. process_item 1001 three_widgets (Decimal 0 (- 2))
                      \<lparr>committed = shop, pending = shop\<rparr> = Inr (total', s')
         \<and> products (pending s') =
              (products shop)(100 \<mapsto> widget\<lparr>count_in_warehouse := 97\<rparr>)
         \<and> order_items (pending s') = order_items shop @
              [\<lparr>order_id = 1001, product_id = 100, quantity = 3,
                unit_price = Decimal 1000 (- 2)\<rparr>])"
proof -
  have h1: "products (pending \<lparr>committed = shop, pending = shop\<rparr>)
              (item_product_id three_widgets) = Some widget"
    by (simp add: shop_def three_widgets_def)
  have h2: "item_quantity three_widgets \<le> count_in_warehouse widget"
    by (simp add: three_widgets_def widget_def)
  from process_item_reserves_stock
         [of "\<lparr>committed = shop, pending = shop\<rparr>" three_widgets 1001 "Decimal 0 (- 2)"] h1 h2
  have "\<exists>total' s'. process_item 1001 three_widgets (Decimal 0 (- 2))
                      \<lparr>committed = shop, pending = shop\<rparr> = Inr (total', s')
         \<and> products (pending s') =
              (products shop)(item_product_id three_widgets \<mapsto>
                 widget\<lparr>count_in_warehouse :=
                    count_in_warehouse widget - item_quantity three_widgets\<rparr>)
         \<and> order_items (pending s') = order_items shop @
              [\<lparr>order_id = 1001, product_id = item_product_id three_widgets,
                quantity = item_quantity three_widgets, unit_price = price widget\<rparr>]"
    by simp
  moreover have "count_in_warehouse widget - item_quantity three_widgets = 97"
     "item_product_id three_widgets = 100" "item_quantity three_widgets = 3"
     "price widget = Decimal 1000 (- 2)"
    by (simp_all add: three_widgets_def widget_def)
  ultimately show ?thesis using h1 h2 by simp
qed

lemma process_items_append:
  "process_items oid (xs @ ys) t s =
     (case process_items oid xs t s of
        (Inl e, s') \<Rightarrow> (Inl e, s')
      | (Inr t', s') \<Rightarrow> process_items oid ys t' s')"
  by (induction xs arbitrary: t s) (auto split: sum.splits prod.splits)

lemma requested_Cons:
  "requested pid (item # rest) =
     (if item_product_id item = pid then item_quantity item else 0) + requested pid rest"
  by (simp add: requested_def)

lemma process_items_stock:
  assumes "process_items oid xs t s = (Inr t', s')"
    and "products (pending s) pid = Some p"
  shows "products (pending s') pid
           = Some (p\<lparr>count_in_warehouse := count_in_warehouse p - requested pid xs\<rparr>)"
  using assms
proof (induction xs arbitrary: t s p)
  case Nil
  then show ?case by (simp add: requested_def)
next
  case (Cons item rest)
  from Cons.prems(1) obtain t1 s1 where
    h: "process_item oid item t s = Inr (t1, s1)" and r: "process_items oid rest t1 s1 = (Inr t', s')"
    by (auto split: sum.splits)
  from h obtain p0 where p0: "products (pending s) (item_product_id item) = Some p0"
    and s1: "products (pending s1) = (products (pending s))(item_product_id item \<mapsto>
                   p0\<lparr>count_in_warehouse := count_in_warehouse p0 - item_quantity item\<rparr>)"
    by (elim process_item_Inr) simp
  show ?case
  proof (cases "item_product_id item = pid")
    case True
    with p0 Cons.prems(2) have "p0 = p" by simp
    with s1 True have "products (pending s1) pid
        = Some (p\<lparr>count_in_warehouse := count_in_warehouse p - item_quantity item\<rparr>)"
      by simp
    from Cons.IH [OF r this] True show ?thesis
      by (simp add: requested_Cons algebra_simps)
  next
    case False
    with s1 Cons.prems(2) have "products (pending s1) pid = Some p" by simp
    from Cons.IH [OF r this] False show ?thesis by (simp add: requested_Cons)
  qed
qed

lemma process_items_within_stock:
  assumes "process_items oid xs t s = (Inr t', s')"
    and "products (pending s) pid = Some p"
    and "\<exists>item \<in> set xs. item_product_id item = pid"
  shows "requested pid xs \<le> count_in_warehouse p"
  using assms
proof (induction xs arbitrary: t s p)
  case Nil
  then show ?case by simp
next
  case (Cons item rest)
  from Cons.prems(1) obtain t1 s1 where
    h: "process_item oid item t s = Inr (t1, s1)" and r: "process_items oid rest t1 s1 = (Inr t', s')"
    by (auto split: sum.splits)
  from h obtain p0 where p0: "products (pending s) (item_product_id item) = Some p0"
    and q0: "item_quantity item \<le> count_in_warehouse p0"
    and s1: "products (pending s1) = (products (pending s))(item_product_id item \<mapsto>
                   p0\<lparr>count_in_warehouse := count_in_warehouse p0 - item_quantity item\<rparr>)"
    by (elim process_item_Inr) simp
  show ?case
  proof (cases "\<exists>i \<in> set rest. item_product_id i = pid")
    case inrest: True
    show ?thesis
    proof (cases "item_product_id item = pid")
      case True
      with p0 Cons.prems(2) have "p0 = p" by simp
      with s1 True have "products (pending s1) pid
          = Some (p\<lparr>count_in_warehouse := count_in_warehouse p - item_quantity item\<rparr>)"
        by simp
      from Cons.IH [OF r this inrest] True show ?thesis by (simp add: requested_Cons)
    next
      case False
      with s1 Cons.prems(2) have "products (pending s1) pid = Some p" by simp
      from Cons.IH [OF r this inrest] False show ?thesis by (simp add: requested_Cons)
    qed
  next
    case False
    then have "filter (\<lambda>i. item_product_id i = pid) rest = []"
      by (auto simp: filter_empty_conv)
    then have z: "requested pid rest = 0" by (simp add: requested_def)
    from False Cons.prems(3) have "item_product_id item = pid" by auto
    with p0 Cons.prems(2) q0 z show ?thesis by (simp add: requested_Cons)
  qed
qed

lemma create_order_Inr:
  assumes "create_order chk new_id order_data db = (Inr v, db')"
  obtains total_amount s' where
    "process_items new_id (oc_items order_data) (Decimal 0 (- 2))
       \<lparr>committed = db,
        pending = db\<lparr>orders := orders db @
          [\<lparr>id_of_order = new_id, order_user_id = oc_user_id order_data,
            order_address_id = oc_address_id order_data\<rparr>]\<rparr>\<rparr> = (Inr total_amount, s')"
    and "db' = pending s'"
    and "new_id \<notin> set (map id_of_order (orders db))"
proof -
  from assms obtain s4 where
    c: "OrderRepository_create chk new_id order_data \<lparr>committed = db, pending = db\<rparr> = (Inr v, s4)"
    and d: "db' = pending s4"
    by (auto simp: create_order_def provide_db_session_def
             dest!: commit_Inr split: prod.splits sum.splits)
  from c have fresh: "new_id \<notin> set (map id_of_order (orders db))"
    by (auto simp: OrderRepository_create_def Let_def split: if_splits)
  from c fresh obtain total_amount s3 where
    "process_items new_id (oc_items order_data) (Decimal 0 (- 2))
       \<lparr>committed = db,
        pending = db\<lparr>orders := orders db @
          [\<lparr>id_of_order = new_id, order_user_id = oc_user_id order_data,
            order_address_id = oc_address_id order_data\<rparr>]\<rparr>\<rparr> = (Inr total_amount, s3)"
    and "pending s4 = pending s3"
    by (auto simp: OrderRepository_create_def Let_def flush_def
             dest!: commit_Inr split: if_splits sum.splits prod.splits)
  with d fresh that show thesis by simp
qed

text \<open>
  C10. Within one call, the stock check of a line is made against the count that the
  earlier lines of the call have already lowered: after the loop has accepted the lines
  \<open>xs\<close>, a further line for a product of the session is accepted exactly when its
  quantity is at most the product's stock at the start less what \<open>xs\<close> asked of that
  product. So whenever the loop accepts the lines \<open>ys\<close> of a call, the lines among them
  that name one product ask together for no more than the stock that product had when
  the loop started, and the stock of the product in the session is then that stock less
  their sum. (The bound is on what the loop accepts. Whether a call with two lines of one
  product is then committed is the engine's verdict on two order items with the same
  \<open>(order_id, product_id)\<close>, the primary key of the table.)
\<close>

theorem duplicate_lines_use_running_count:
  "(process_items oid xs t s = (Inr t1, s1)
      \<and> products (pending s) (item_product_id item) = Some p
    \<longrightarrow> ((\<exists>t2 s2. process_items oid (xs @ [item]) t s = (Inr t2, s2))
          \<longleftrightarrow> item_quantity item
                \<le> count_in_warehouse p - requested (item_product_id item) xs))
   \<and> (process_items oid' ys t' s' = (Inr t3, s3)
      \<and> products (pending s') pid = Some p'
      \<and> (\<exists>line \<in> set ys. item_product_id line = pid)
    \<longrightarrow> requested pid ys \<le> count_in_warehouse p'
        \<and> map_option count_in_warehouse (products (pending s3) pid)
            = Some (count_in_warehouse p' - requested pid ys))"
proof (intro conjI impI)
  assume a: "process_items oid xs t s = (Inr t1, s1)
      \<and> products (pending s) (item_product_id item) = Some p"
  then have "products (pending s1) (item_product_id item)
     = Some (p\<lparr>count_in_warehouse :=
                 count_in_warehouse p - requested (item_product_id item) xs\<rparr>)"
    using process_items_stock by blast
  with a show "(\<exists>t2 s2. process_items oid (xs @ [item]) t s = (Inr t2, s2))
          \<longleftrightarrow> item_quantity item
                \<le> count_in_warehouse p - requested (item_product_id item) xs"
    by (auto simp: process_items_append process_item_def Let_def split: sum.splits)
next
  assume b: "process_items oid' ys t' s' = (Inr t3, s3)
      \<and> products (pending s') pid = Some p'
      \<and> (\<exists>line \<in> set ys. item_product_id line = pid)"
  then have run: "process_items oid' ys t' s' = (Inr t3, s3)"
    and p: "products (pending s') pid = Some p'"
    and m: "\<exists>line \<in> set ys. item_product_id line = pid"
    by simp_all
  from process_items_within_stock [OF run p m]
  show "requested pid ys \<le> count_in_warehouse p'" .
  from process_items_stock [OF run p]
  show "map_option count_in_warehouse (products (pending s3) pid)
            = Some (count_in_warehouse p' - requested pid ys)"
    by simp
qed

theorem duplicate_lines_use_running_count_witness:
  "fst (process_items 1001 (oc_items sixty_then_forty) (Decimal 0 (- 2))
          \<lparr>committed = shop, pending = shop\<rparr>) = Inr (Decimal 100000 (- 2))
   \<and> products shop 100 = Some widget
   \<and> list_ex (\<lambda>line. item_product_id line = 100) (oc_items sixty_then_forty)
   \<and> requested 100 (oc_items sixty_then_forty) = 100
   \<and> requested 100 (oc_items sixty_then_forty) \<le> count_in_warehouse widget
   \<and> map_option count_in_warehouse
         (products (pending (snd (process_items 1001 (oc_items sixty_then_forty) (Decimal 0 (- 2))
                                    \<lparr>committed = shop, pending = shop\<rparr>))) 100)
       = Some 0
   \<and> \<not> (\<exists>t2 s2. process_items 1001
              (oc_items sixty_then_forty @ [\<lparr>item_product_id = 100, item_quantity = 1\<rparr>])
              (Decimal 0 (- 2)) \<lparr>committed = shop, pending = shop\<rparr> = (Inr t2, s2))"
proof -
  let ?s = "\<lparr>committed = shop, pending = shop\<rparr>"
  let ?run = "process_items 1001 (oc_items sixty_then_forty) (Decimal 0 (- 2)) ?s"
  have h1: "products (pending ?s) 100 = Some widget" by (simp add: shop_def)
  have h2: "\<exists>line \<in> set (oc_items sixty_then_forty). item_product_id line = 100"
    by (simp add: sixty_then_forty_def)
  have h3: "fst ?run = Inr (Decimal 100000 (- 2))"
    by (simp add: process_item_def set_product_def sixty_then_forty_def shop_def widget_def
          Let_def)
  then have h4: "?run = (Inr (Decimal 100000 (- 2)), snd ?run)"
    by (simp add: prod_eq_iff)
  have h5: "requested 100 (oc_items sixty_then_forty) = 100"
    by (simp add: requested_def sixty_then_forty_def)
  have h6: "count_in_warehouse widget = 100" by (simp add: widget_def)
  have h7: "products (pending ?s)
              (item_product_id \<lparr>item_product_id = 100, item_quantity = 1\<rparr>) = Some widget"
    by (simp add: shop_def)
  from duplicate_lines_use_running_count
         [THEN conjunct1, rule_format, OF conjI [OF h4 h7]] h5 h6
  have h8: "\<not> (\<exists>t2 s2. process_items 1001
              (oc_items sixty_then_forty @ [\<lparr>item_product_id = 100, item_quantity = 1\<rparr>])
              (Decimal 0 (- 2)) ?s = (Inr t2, s2))"
    by simp
  from duplicate_lines_use_running_count
         [THEN conjunct2, rule_format, OF conjI [OF h4 conjI [OF h1 h2]]] h1 h2 h3 h5 h6 h8
  show ?thesis by (simp add: list_ex_iff)
qed

lemma provide_db_session_cases:
  assumes "provide_db_session chk h db = (r, db')"
  obtains (failed) e s where "h \<lparr>committed = db, pending = db\<rparr> = (Inl e, s)"
      "r = Inl (DatabaseOperationFailed e)" "db' = committed s"
    | (refused) v s where "h \<lparr>committed = db, pending = db\<rparr> = (Inr v, s)"
      "\<not> chk (pending s)" "r = Inl (DatabaseOperationFailed IntegrityError)" "db' = committed s"
    | (succeeded) v s where "h \<lparr>committed = db, pending = db\<rparr> = (Inr v, s)"
      "chk (pending s)" "r = Inr v" "db' = pending s"
proof (cases "h \<lparr>committed = db, pending = db\<rparr>")
  case (Pair x s)
  show thesis
  proof (cases x)
    case (Inl e)
    with Pair assms have "r = Inl (DatabaseOperationFailed e)" "db' = committed s"
      by (simp_all add: provide_db_session_def rollback_def)
    with Pair Inl show thesis by (intro failed [of e s]) simp_all
  next
    case (Inr v)
    show thesis
    proof (cases "chk (pending s)")
      case True
      with Pair Inr assms have "r = Inr v" "db' = pending s"
        by (simp_all add: provide_db_session_def commit_def flush_def)
      with Pair Inr True show thesis by (intro succeeded [of v s]) simp_all
    next
      case False
      with Pair Inr assms have "r = Inl (DatabaseOperationFailed IntegrityError)"
        "db' = committed s"
        by (simp_all add: provide_db_session_def commit_def flush_def rollback_def)
      with Pair Inr False show thesis by (intro refused [of v s]) simp_all
    qed
  qed
qed

lemma line_totals_append:
  "line_totals t (xs @ [x]) = dec_add (line_totals t xs) (dec_mul_int (unit_price x) (quantity x))"
  by (simp add: line_totals_def)

lemma line_totals_Cons:
  "line_totals t (x # xs) = line_totals (dec_add t (dec_mul_int (unit_price x) (quantity x))) xs"
  by (simp add: line_totals_def)

lemma process_items_order_items:
  assumes "process_items oid xs t s = (Inr t', s')"
  shows "\<exists>new. order_items (pending s') = order_items (pending s) @ new
           \<and> (\<forall>it \<in> set new. order_id it = oid) \<and> t' = line_totals t new
           \<and> orders (pending s') = orders (pending s)"
  using assms
proof (induction xs arbitrary: t s)
  case Nil
  then show ?case by (auto simp: line_totals_def)
next
  case (Cons item rest)
  from Cons.prems(1) obtain t1 s1 where
    h: "process_item oid item t s = Inr (t1, s1)" and r: "process_items oid rest t1 s1 = (Inr t', s')"
    by (auto split: sum.splits)
  from h obtain p where
    t1: "t1 = dec_add t (dec_mul_int (price p) (item_quantity item))"
    and s1_def: "s1 = s\<lparr>pending := (pending s)
               \<lparr>order_items := order_items (pending s) @
                   [\<lparr>order_id = oid, product_id = item_product_id item,
                     quantity = item_quantity item, unit_price = price p\<rparr>],
                products := (products (pending s))(item_product_id item \<mapsto>
                   p\<lparr>count_in_warehouse := count_in_warehouse p - item_quantity item\<rparr>)\<rparr>\<rparr>"
    by (rule process_item_Inr)
  from s1_def have s1: "order_items (pending s1) = order_items (pending s) @
               [\<lparr>order_id = oid, product_id = item_product_id item,
                 quantity = item_quantity item, unit_price = price p\<rparr>]"
            "orders (pending s1) = orders (pending s)"
    by simp_all
  from Cons.IH [OF r] obtain new where
    new: "order_items (pending s') = order_items (pending s1) @ new"
      "\<forall>it \<in> set new. order_id it = oid" "t' = line_totals t1 new"
      "orders (pending s') = orders (pending s1)"
    by blast
  let ?x = "\<lparr>order_id = oid, product_id = item_product_id item,
                 quantity = item_quantity item, unit_price = price p\<rparr>"
  from new s1 t1 have "order_items (pending s') = order_items (pending s) @ (?x # new)
           \<and> (\<forall>it \<in> set (?x # new). order_id it = oid) \<and> t' = line_totals t (?x # new)
           \<and> orders (pending s') = orders (pending s)"
    by (simp add: line_totals_Cons)
  then show ?case by blast
qed

lemma process_items_total:
  assumes "process_items oid xs (Decimal 0 (- 2)) s = (Inr total_amount, s')"
    and "\<forall>it \<in> set (order_items (pending s)). order_id it \<noteq> oid"
  shows "order_total (pending s') oid = total_amount"
proof -
  from process_items_order_items [OF assms(1)] obtain new where
    new: "order_items (pending s') = order_items (pending s) @ new"
      "\<forall>it \<in> set new. order_id it = oid" "total_amount = line_totals (Decimal 0 (- 2)) new"
    by blast
  from assms(2) have "filter (\<lambda>item. order_id item = oid) (order_items (pending s)) = []"
    by (auto simp: filter_empty_conv)
  moreover from new(2) have "filter (\<lambda>item. order_id item = oid) new = new"
    by (auto simp: filter_id_conv)
  ultimately show ?thesis using new by (simp add: order_total_def)
qed

lemma ProductRepository_update_frame:
  assumes "ProductRepository_update chk now pid d s = (r, s')"
  shows "order_items (pending s') = order_items (pending s)
       \<and> orders (pending s') = orders (pending s)
       \<and> users (pending s') = users (pending s)
       \<and> addresses (pending s') = addresses (pending s)
       \<and> (committed s' = committed s \<or> committed s' = pending s')"
  using assms
  by (auto simp: ProductRepository_update_def ProductRepository_get_by_id_def set_product_def
        Let_def dest!: commit_Inr split: option.splits sum.splits if_splits)

lemma update_product_frame:
  assumes "provide_db_session chk (ProductRepository_update chk now pid d) db = (r, db')"
  shows "order_items db' = order_items db \<and> orders db' = orders db"
  using assms
proof (cases rule: provide_db_session_cases)
  case (failed e s)
  from ProductRepository_update_frame [OF failed(1)] failed(3) show ?thesis by auto
next
  case (refused v s)
  from ProductRepository_update_frame [OF refused(1)] refused(4) show ?thesis by auto
next
  case (succeeded v s)
  from ProductRepository_update_frame [OF succeeded(1)] succeeded(4) show ?thesis by auto
qed

text \<open>
  C5. The total that \<^verbatim>\<open>create\<close> accumulates over the lines of a new order is the sum of
  \<open>quantity * unit_price\<close> over the order items it has added, which is the order's total
  as computed from its items at read time. A later \<^verbatim>\<open>ProductRepository.update\<close>, whatever
  its payload and outcome, changes no order and no order item (no \<open>unit_price\<close>, no
  \<open>quantity\<close>), so the total of every order stays what it was.
\<close>

theorem order_total_fixed_at_creation:
  "(process_items oid xs (Decimal 0 (- 2)) s = (Inr total_amount, s')
      \<and> (\<forall>it \<in> set (order_items (pending s)). order_id it \<noteq> oid)
     \<longrightarrow> order_total (pending s') oid = total_amount)
   \<and> order_items (snd (provide_db_session chk (ProductRepository_update chk now pid d) db))
       = order_items db
   \<and> orders (snd (provide_db_session chk (ProductRepository_update chk now pid d) db))
       = orders db
   \<and> order_total (snd (provide_db_session chk (ProductRepository_update chk now pid d) db))
        any_order = order_total db any_order"
proof -
  obtain r db' where
    u: "provide_db_session chk (ProductRepository_update chk now pid d) db = (r, db')"
    by (cases "provide_db_session chk (ProductRepository_update chk now pid d) db")
  from update_product_frame [OF u] u process_items_total [of oid xs s total_amount s']
  show ?thesis by (auto simp: order_total_def)
qed

theorem order_total_fixed_at_creation_witness:
  "process_items 1001 [three_widgets] (Decimal 0 (- 2)) \<lparr>committed = shop, pending = shop\<rparr>
     = (Inr (Decimal 3000 (- 2)),
        \<lparr>committed = shop,
         pending = shop\<lparr>order_items := order_items shop @
                         [\<lparr>order_id = 1001, product_id = 100, quantity = 3,
                           unit_price = Decimal 1000 (- 2)\<rparr>],
                       products := (products shop)(100 \<mapsto>
                          widget\<lparr>count_in_warehouse := 97\<rparr>)\<rparr>\<rparr>)
   \<and> list_all (\<lambda>it. order_id it \<noteq> 1001) (order_items shop)
   \<and> order_total (shop\<lparr>order_items := order_items shop @
                         [\<lparr>order_id = 1001, product_id = 100, quantity = 3,
                           unit_price = Decimal 1000 (- 2)\<rparr>],
                       products := (products shop)(100 \<mapsto>
                          widget\<lparr>count_in_warehouse := 97\<rparr>)\<rparr>) 1001 = Decimal 3000 (- 2)
   \<and> products (snd (provide_db_session accept
                      (ProductRepository_update accept 7 100 raise_price) shop)) 100
       = Some (widget\<lparr>price := Decimal 1234 (- 2), updated_at := 7\<rparr>)
   \<and> order_total (snd (provide_db_session accept
                      (ProductRepository_update accept 7 100 raise_price) shop)) 1000
       = Decimal 3000 (- 2)
   \<and> order_total shop 1000 = Decimal 3000 (- 2)"
proof -
  let ?s = "\<lparr>committed = shop, pending = shop\<rparr>"
  let ?s' = "\<lparr>committed = shop,
         pending = shop\<lparr>order_items := order_items shop @
                         [\<lparr>order_id = 1001, product_id = 100, quantity = 3,
                           unit_price = Decimal 1000 (- 2)\<rparr>],
                       products := (products shop)(100 \<mapsto>
                          widget\<lparr>count_in_warehouse := 97\<rparr>)\<rparr>\<rparr>"
  have h1: "process_items 1001 [three_widgets] (Decimal 0 (- 2)) ?s
              = (Inr (Decimal 3000 (- 2)), ?s')"
    by (simp add: process_item_def set_product_def three_widgets_def shop_def widget_def
          Let_def)
  have h2: "\<forall>it \<in> set (order_items (pending ?s)). order_id it \<noteq> 1001"
    by (simp add: shop_def)
  have h3: "order_total shop 1000 = Decimal 3000 (- 2)"
    by (simp add: order_total_def line_totals_def shop_def)
  have h4: "products (snd (provide_db_session accept
                      (ProductRepository_update accept 7 100 raise_price) shop)) 100
       = Some (widget\<lparr>price := Decimal 1234 (- 2), updated_at := 7\<rparr>)"
    by (simp add: provide_db_session_def ProductRepository_update_def
          ProductRepository_get_by_id_def set_product_def commit_def flush_def accept_def
          raise_price_def round_half_even_def shop_def widget_def Let_def)
  from order_total_fixed_at_creation
         [of 1001 "[three_widgets]" ?s "Decimal 3000 (- 2)" ?s' accept 7 100 raise_price shop 1000]
       h1 h2 h3 h4
  show ?thesis by (simp add: list_all_iff)
qed

lemma provide_db_session_sound:
  assumes run: "provide_db_session chk h db = (r, db')"
    and err: "\<And>e s. h \<lparr>committed = db, pending = db\<rparr> = (Inl e, s) \<Longrightarrow> committed s = db"
    and ok: "\<And>v s. h \<lparr>committed = db, pending = db\<rparr> = (Inr v, s) \<Longrightarrow> chk (pending s)"
  shows "(\<exists>e s. h \<lparr>committed = db, pending = db\<rparr> = (Inl e, s)
            \<and> r = Inl (DatabaseOperationFailed e) \<and> db' = db)
       \<or> (\<exists>v s. h \<lparr>committed = db, pending = db\<rparr> = (Inr v, s)
            \<and> r = Inr v \<and> db' = pending s)"
  using run
proof (cases rule: provide_db_session_cases)
  case (failed e s)
  with err [of e s] show ?thesis by simp
next
  case (refused v s)
  with ok [of v s] show ?thesis by simp
next
  case (succeeded v s)
  then show ?thesis by simp
qed

lemma ProductRepository_create_Inl:
  "ProductRepository_create chk now new_id d s = (Inl e, s') \<Longrightarrow> committed s' = committed s"
  by (auto simp: ProductRepository_create_def set_product_def Let_def
           dest!: commit_Inr split: sum.splits if_splits)

lemma ProductRepository_create_Inr:
  assumes "ProductRepository_create chk now new_id d s = (Inr v, s')"
  shows "chk (pending s')" and "committed s' = pending s'"
    and "pending s' = (pending s)\<lparr>products := (products (pending s))(new_id \<mapsto> v)\<rparr>"
    and "count_in_warehouse v = pc_count_in_warehouse d"
    and "quantize (pc_price d) (Decimal 1 (- 2)) = Inr (price v)"
    and "products (pending s) new_id = None"
  using assms
  by (auto simp: ProductRepository_create_def set_product_def Let_def
           dest!: commit_Inr split: sum.splits if_splits)

lemma ProductRepository_update_Inl:
  "ProductRepository_update chk now pid d s = (Inl e, s') \<Longrightarrow> committed s' = committed s"
  by (auto simp: ProductRepository_update_def ProductRepository_get_by_id_def set_product_def
        Let_def dest!: commit_Inr split: option.splits sum.splits if_splits)

lemma ProductRepository_update_Inr:
  assumes "ProductRepository_update chk now pid d s = (Inr v, s')"
  obtains old where "products (pending s) pid = Some old"
    and "chk (pending s')" and "committed s' = pending s'"
    and "pending s' = (pending s)\<lparr>products := (products (pending s))(pid \<mapsto> v)\<rparr>"
    and "count_in_warehouse v = (case pu_count_in_warehouse d of
                                   None \<Rightarrow> count_in_warehouse old | Some c \<Rightarrow> c)"
    and "case pu_price d of
           None \<Rightarrow> price v = price old
         | Some x \<Rightarrow> quantize x (Decimal 1 (- 2)) = Inr (price v)"
proof (cases "products (pending s) pid")
  case None
  with assms show ?thesis
    by (simp add: ProductRepository_update_def ProductRepository_get_by_id_def)
next
  case (Some old)
  with assms show ?thesis
    by (intro that [of old])
       (auto simp: ProductRepository_update_def ProductRepository_get_by_id_def set_product_def
          Let_def dest!: commit_Inr split: option.splits sum.splits if_splits)
qed

lemma ProductRepository_update_stock_Inl:
  "ProductRepository_update_stock chk pid change s = (Inl e, s') \<Longrightarrow> committed s' = committed s"
  by (auto simp: ProductRepository_update_stock_def ProductRepository_get_by_id_def
        set_product_def Let_def dest!: commit_Inr split: option.splits sum.splits if_splits)

lemma ProductRepository_update_stock_Inr:
  assumes "ProductRepository_update_stock chk pid change s = (Inr v, s')"
  shows "chk (pending s')" and "committed s' = pending s'"
    and "pending s' = (pending s)\<lparr>products := (products (pending s))(pid \<mapsto> v)\<rparr>"
    and "0 \<le> count_in_warehouse v"
  using assms
  by (auto simp: ProductRepository_update_stock_def ProductRepository_get_by_id_def
        set_product_def Let_def dest!: commit_Inr split: option.splits sum.splits if_splits)

lemma stock_nonneg_update:
  "stock_nonneg db \<Longrightarrow> 0 \<le> count_in_warehouse v
     \<Longrightarrow> stock_nonneg (db\<lparr>products := (products db)(pid \<mapsto> v)\<rparr>)"
  by (simp add: stock_nonneg_def)

lemma process_items_stock_nonneg:
  assumes "process_items oid xs t s = (r, s')" and "stock_nonneg (pending s)"
  shows "stock_nonneg (pending s')"
  using assms
proof (induction xs arbitrary: t s)
  case Nil
  then show ?case by simp
next
  case (Cons item rest)
  show ?case
  proof (cases "process_item oid item t s")
    case (Inl e)
    with Cons.prems show ?thesis by simp
  next
    case (Inr x)
    obtain t1 s1 where x: "x = (t1, s1)" by (cases x)
    with Inr Cons.prems(1) have r: "process_items oid rest t1 s1 = (r, s')" by simp
    from Inr x have "process_item oid item t s = Inr (t1, s1)" by simp
    then obtain p where "products (pending s) (item_product_id item) = Some p"
      and "item_quantity item \<le> count_in_warehouse p"
      and "t1 = dec_add t (dec_mul_int (price p) (item_quantity item))"
      and "s1 = s\<lparr>pending := (pending s)
               \<lparr>order_items := order_items (pending s) @
                   [\<lparr>order_id = oid, product_id = item_product_id item,
                     quantity = item_quantity item, unit_price = price p\<rparr>],
                products := (products (pending s))(item_product_id item \<mapsto>
                   p\<lparr>count_in_warehouse := count_in_warehouse p - item_quantity item\<rparr>)\<rparr>\<rparr>"
      by (rule process_item_Inr)
    with Cons.prems(2) have "stock_nonneg (pending s1)"
      by (simp add: stock_nonneg_def)
    from Cons.IH [OF r this] show ?thesis .
  qed
qed

lemma create_order_stock_nonneg:
  assumes "create_order chk new_id order_data db = (r, db')" and "stock_nonneg db"
  shows "stock_nonneg db'"
proof (cases r)
  case (Inl e)
  with assms create_order_failure [of chk new_id order_data db e db'] show ?thesis by simp
next
  case (Inr v)
  with assms(1) have "create_order chk new_id order_data db = (Inr v, db')" by simp
  then obtain total_amount s' where
    run: "process_items new_id (oc_items order_data) (Decimal 0 (- 2))
       \<lparr>committed = db,
        pending = db\<lparr>orders := orders db @
          [\<lparr>id_of_order = new_id, order_user_id = oc_user_id order_data,
            order_address_id = oc_address_id order_data\<rparr>]\<rparr>\<rparr> = (Inr total_amount, s')"
    and d: "db' = pending s'"
    and "new_id \<notin> set (map id_of_order (orders db))"
    by (rule create_order_Inr)
  from assms(2) have "stock_nonneg (pending \<lparr>committed = db,
        pending = db\<lparr>orders := orders db @
          [\<lparr>id_of_order = new_id, order_user_id = oc_user_id order_data,
            order_address_id = oc_address_id order_data\<rparr>]\<rparr>\<rparr>)"
    by (simp add: stock_nonneg_def)
  from process_items_stock_nonneg [OF run this] d show ?thesis by simp
qed

lemma ProductCreate_Inr:
  "ProductCreate l cp cw p = Inr d \<Longrightarrow> 0 \<le> pc_count_in_warehouse d \<and> 0 \<le> cw"
  by (auto simp: ProductCreate_def validate_warehouse_count_def split: sum.splits if_splits)

lemma ProductUpdate_Inr:
  "ProductUpdate l cp cw p = Inr d \<Longrightarrow> pu_count_in_warehouse d = cw
     \<and> (case cw of None \<Rightarrow> True | Some c \<Rightarrow> 0 \<le> c)"
  by (auto simp: ProductUpdate_def optional_def validate_warehouse_count_def
           split: sum.splits if_splits option.splits)

lemma outcome_simps:
  "outcome (Inl e, db) = (Some e, db)" "outcome (Inr v, db) = (None, db)"
  by (simp_all add: outcome_def)

lemma create_product_result:
  assumes "provide_db_session chk (ProductRepository_create chk now new_id d) db = (r, db')"
  shows "(\<exists>e. r = Inl e \<and> db' = db)
       \<or> (\<exists>v. r = Inr v \<and> db' = db\<lparr>products := (products db)(new_id \<mapsto> v)\<rparr>
              \<and> count_in_warehouse v = pc_count_in_warehouse d
              \<and> quantize (pc_price d) (Decimal 1 (- 2)) = Inr (price v)
              \<and> products db new_id = None)"
proof -
  let ?h = "ProductRepository_create chk now new_id d"
  let ?s = "\<lparr>committed = db, pending = db\<rparr>"
  have "(\<exists>e s. ?h ?s = (Inl e, s) \<and> r = Inl (DatabaseOperationFailed e) \<and> db' = db)
       \<or> (\<exists>v s. ?h ?s = (Inr v, s) \<and> r = Inr v \<and> db' = pending s)"
  proof (rule provide_db_session_sound [OF assms])
    fix e s assume "?h ?s = (Inl e, s)"
    from ProductRepository_create_Inl [OF this] show "committed s = db" by simp
  next
    fix v s assume "?h ?s = (Inr v, s)"
    then show "chk (pending s)" by (rule ProductRepository_create_Inr(1))
  qed
  then show ?thesis
  proof (elim disjE exE conjE)
    fix e s assume "r = Inl (DatabaseOperationFailed e)" "db' = db"
    then show ?thesis by simp
  next
    fix v s assume h: "?h ?s = (Inr v, s)" and "r = Inr v" "db' = pending s"
    with ProductRepository_create_Inr(3,4,5,6) [OF h] show ?thesis by simp
  qed
qed

lemma update_product_result:
  assumes "provide_db_session chk (ProductRepository_update chk now pid d) db = (r, db')"
  shows "(\<exists>e. r = Inl e \<and> db' = db)
       \<or> (\<exists>v old. r = Inr v \<and> products db pid = Some old
              \<and> db' = db\<lparr>products := (products db)(pid \<mapsto> v)\<rparr>
              \<and> count_in_warehouse v = (case pu_count_in_warehouse d of
                                   None \<Rightarrow> count_in_warehouse old | Some c \<Rightarrow> c)
              \<and> (case pu_price d of
                    None \<Rightarrow> price v = price old
                  | Some x \<Rightarrow> quantize x (Decimal 1 (- 2)) = Inr (price v)))"
proof -
  let ?h = "ProductRepository_update chk now pid d"
  let ?s = "\<lparr>committed = db, pending = db\<rparr>"
  have "(\<exists>e s. ?h ?s = (Inl e, s) \<and> r = Inl (DatabaseOperationFailed e) \<and> db' = db)
       \<or> (\<exists>v s. ?h ?s = (Inr v, s) \<and> r = Inr v \<and> db' = pending s)"
  proof (rule provide_db_session_sound [OF assms])
    fix e s assume "?h ?s = (Inl e, s)"
    from ProductRepository_update_Inl [OF this] show "committed s = db" by simp
  next
    fix v s assume "?h ?s = (Inr v, s)"
    then show "chk (pending s)" by (rule ProductRepository_update_Inr)
  qed
  then show ?thesis
  proof (elim disjE exE conjE)
    fix e s assume "r = Inl (DatabaseOperationFailed e)" "db' = db"
    then show ?thesis by simp
  next
    fix v s
    assume h: "?h ?s = (Inr v, s)" and r: "r = Inr v" and d: "db' = pending s"
    from h obtain old where "products (pending ?s) pid = Some old"
      and "chk (pending s)" and "committed s = pending s"
      and "pending s = (pending ?s)\<lparr>products := (products (pending ?s))(pid \<mapsto> v)\<rparr>"
      and "count_in_warehouse v = (case pu_count_in_warehouse d of
                                   None \<Rightarrow> count_in_warehouse old | Some c \<Rightarrow> c)"
      and "case pu_price d of
             None \<Rightarrow> price v = price old
           | Some x \<Rightarrow> quantize x (Decimal 1 (- 2)) = Inr (price v)"
      by (rule ProductRepository_update_Inr)
    with r d show ?thesis by simp
  qed
qed

lemma update_stock_result:
  assumes "provide_db_session chk (ProductRepository_update_stock chk pid change) db = (r, db')"
  shows "(\<exists>e. r = Inl e \<and> db' = db)
       \<or> (\<exists>v. r = Inr v \<and> db' = db\<lparr>products := (products db)(pid \<mapsto> v)\<rparr>
              \<and> 0 \<le> count_in_warehouse v)"
proof -
  let ?h = "ProductRepository_update_stock chk pid change"
  let ?s = "\<lparr>committed = db, pending = db\<rparr>"
  have "(\<exists>e s. ?h ?s = (Inl e, s) \<and> r = Inl (DatabaseOperationFailed e) \<and> db' = db)
       \<or> (\<exists>v s. ?h ?s = (Inr v, s) \<and> r = Inr v \<and> db' = pending s)"
  proof (rule provide_db_session_sound [OF assms])
    fix e s assume "?h ?s = (Inl e, s)"
    from ProductRepository_update_stock_Inl [OF this] show "committed s = db" by simp
  next
    fix v s assume "?h ?s = (Inr v, s)"
    then show "chk (pending s)" by (rule ProductRepository_update_stock_Inr(1))
  qed
  then show ?thesis
  proof (elim disjE exE conjE)
    fix e s assume "r = Inl (DatabaseOperationFailed e)" "db' = db"
    then show ?thesis by simp
  next
    fix v s assume h: "?h ?s = (Inr v, s)" and "r = Inr v" "db' = pending s"
    with ProductRepository_update_stock_Inr(3,4) [OF h] show ?thesis by simp
  qed
qed

lemma run_operation_sound:
  assumes "run_operation chk operation db = (r, db')"
  shows "(r \<noteq> None \<longrightarrow> db' = db) \<and> (stock_nonneg db \<longrightarrow> stock_nonneg db')"
proof (cases operation)
  case (CreateProduct now new_id l cp cw p)
  show ?thesis
  proof (cases "ProductCreate l cp cw p")
    case (Inl e)
    with assms CreateProduct show ?thesis by simp
  next
    case (Inr d)
    obtain x y where
      run: "provide_db_session chk (ProductRepository_create chk now new_id d) db = (x, y)"
      by (cases "provide_db_session chk (ProductRepository_create chk now new_id d) db")
    with assms CreateProduct Inr have o: "outcome (x, y) = (r, db')" by simp
    from create_product_result [OF run] ProductCreate_Inr [OF Inr] o show ?thesis
      by (auto simp: outcome_simps stock_nonneg_def split: if_splits)
  qed
next
  case (UpdateProduct now pid l cp cw p)
  show ?thesis
  proof (cases "ProductUpdate l cp cw p")
    case (Inl e)
    with assms UpdateProduct show ?thesis by simp
  next
    case (Inr d)
    obtain x y where
      run: "provide_db_session chk (ProductRepository_update chk now pid d) db = (x, y)"
      by (cases "provide_db_session chk (ProductRepository_update chk now pid d) db")
    with assms UpdateProduct Inr have o: "outcome (x, y) = (r, db')" by simp
    from update_product_result [OF run] show ?thesis
    proof (elim disjE exE conjE)
      fix e assume "x = Inl e" "y = db"
      with o show ?thesis by (auto simp: outcome_simps)
    next
      fix v old
      assume x: "x = Inr v" and old: "products db pid = Some old"
        and y: "y = db\<lparr>products := (products db)(pid \<mapsto> v)\<rparr>"
        and c: "count_in_warehouse v = (case pu_count_in_warehouse d of
                                   None \<Rightarrow> count_in_warehouse old | Some c \<Rightarrow> c)"
      have "stock_nonneg db \<longrightarrow> 0 \<le> count_in_warehouse v"
        using old c ProductUpdate_Inr [OF Inr]
        by (auto simp: stock_nonneg_def split: option.splits)
      with x y o show ?thesis by (auto simp: outcome_simps stock_nonneg_def split: if_splits)
    qed
  qed
next
  case (UpdateStock pid change)
  obtain x y where
    run: "provide_db_session chk (ProductRepository_update_stock chk pid change) db = (x, y)"
    by (cases "provide_db_session chk (ProductRepository_update_stock chk pid change) db")
  with assms UpdateStock have o: "outcome (x, y) = (r, db')" by simp
  from update_stock_result [OF run] o show ?thesis
    by (auto simp: outcome_simps stock_nonneg_def split: if_splits)
next
  case (CreateOrder new_id uid aid raw)
  show ?thesis
  proof (cases "OrderCreate uid aid raw")
    case (Inl e)
    with assms CreateOrder show ?thesis by simp
  next
    case (Inr d)
    obtain x y where run: "create_order chk new_id d db = (x, y)"
      by (cases "create_order chk new_id d db")
    with assms CreateOrder Inr have o: "outcome (x, y) = (r, db')" by simp
    show ?thesis
    proof (cases x)
      case (Inl e)
      with run create_order_failure [of chk new_id d db e y] o
      show ?thesis by (auto simp: outcome_simps)
    next
      case Inr': (Inr v)
      with create_order_stock_nonneg [OF run] o
      show ?thesis by (auto simp: outcome_simps)
    qed
  qed
qed

lemma run_operations_stock_nonneg:
  "stock_nonneg db \<Longrightarrow> stock_nonneg (run_operations chk ops db)"
proof (induction ops arbitrary: db)
  case Nil
  then show ?case by simp
next
  case (Cons operation rest)
  obtain r db' where "run_operation chk operation db = (r, db')"
    by (cases "run_operation chk operation db")
  with run_operation_sound [OF this] Cons.prems have "stock_nonneg (snd (run_operation chk operation db))"
    by simp
  from Cons.IH [OF this] show ?case by simp
qed

lemma parse_items_Inr:
  "parse_items raw = Inr items \<Longrightarrow>
     items = map (\<lambda>(pid, q). \<lparr>item_product_id = pid, item_quantity = q\<rparr>) raw
     \<and> (\<forall>(pid, q) \<in> set raw. 1 \<le> q)"
proof (induction raw arbitrary: items)
  case Nil
  then show ?case by simp
next
  case (Cons x rest)
  obtain pid q where x: "x = (pid, q)" by (cases x)
  with Cons.prems obtain rest' where "parse_items rest = Inr rest'"
    and "items = \<lparr>item_product_id = pid, item_quantity = q\<rparr> # rest'" and "1 \<le> q"
    by (auto simp: OrderItemCreate_def validate_quantity_def split: sum.splits if_splits)
  with Cons.IH [of rest'] x show ?case by simp
qed

lemma OrderCreate_Inr:
  assumes "OrderCreate uid aid raw = Inr d"
  shows "oc_items d = map (\<lambda>(pid, q). \<lparr>item_product_id = pid, item_quantity = q\<rparr>) raw"
    and "\<forall>item \<in> set (oc_items d). 1 \<le> item_quantity item"
proof -
  from assms obtain items where p: "parse_items raw = Inr items" and d: "oc_items d = items"
    by (auto simp: OrderCreate_def validate_items_def split: sum.splits if_splits)
  from parse_items_Inr [OF p] d
  show "oc_items d = map (\<lambda>(pid, q). \<lparr>item_product_id = pid, item_quantity = q\<rparr>) raw"
    by simp
  with parse_items_Inr [OF p] show "\<forall>item \<in> set (oc_items d). 1 \<le> item_quantity item"
    by auto
qed

lemma create_product_rejects_negative_stock:
  "cw < 0 \<Longrightarrow> fst (run_operation chk (CreateProduct now new_id l cp cw p) db) \<noteq> None"
  by (cases "ProductCreate l cp cw p") (auto dest: ProductCreate_Inr)

lemma update_product_rejects_negative_stock:
  "cw < 0 \<Longrightarrow> fst (run_operation chk (UpdateProduct now pid l cp (Some cw) p) db) \<noteq> None"
  by (cases "ProductUpdate l cp (Some cw) p") (auto dest: ProductUpdate_Inr)

lemma update_stock_rejects_negative_stock:
  "products db pid = Some x \<Longrightarrow> count_in_warehouse x + change < 0 \<Longrightarrow>
     run_operation chk (UpdateStock pid change) db
       = (Some (DatabaseOperationFailed (InsufficientStock (count_in_warehouse x) change)), db)"
  by (simp add: outcome_def provide_db_session_def ProductRepository_update_stock_def
        ProductRepository_get_by_id_def rollback_def Let_def)

lemma create_order_rejects_overdraw:
  assumes "products db pid = Some x" and "(pid, q) \<in> set raw" and "count_in_warehouse x < q"
  shows "fst (run_operation chk (CreateOrder new_id uid aid raw) db) \<noteq> None"
proof (cases "OrderCreate uid aid raw")
  case (Inl e)
  then show ?thesis by simp
next
  case (Inr d)
  from OrderCreate_Inr(1) [OF Inr] assms(2)
  have "\<lparr>item_product_id = pid, item_quantity = q\<rparr> \<in> set (oc_items d)" by force
  with assms(1,3) have "\<exists>item \<in> set (oc_items d). line_fails db item"
    by (auto simp: line_fails_def intro!: bexI [of _ "\<lparr>item_product_id = pid, item_quantity = q\<rparr>"])
  from create_order_line_failure [OF OrderCreate_Inr(2) [OF Inr] this, of chk new_id] Inr
  show ?thesis
    by (cases "create_order chk new_id d db") (auto simp: outcome_def isl_def)
qed

text \<open>
  C3. Starting from a datastore in which no stock is negative, no sequence of product
  creations, product updates, stock adjustments and order creations (each built through
  its schema and run as one unit of work) reaches a datastore with a negative stock. An
  operation that fails leaves the datastore as it was. Creating or updating a product with
  a negative stock, adjusting a stock below zero and ordering more than a product's stock
  are refused.
\<close>

theorem stock_never_negative:
  "(stock_nonneg db \<longrightarrow> stock_nonneg (run_operations chk ops db))
   \<and> (fst (run_operation chk operation db) \<noteq> None
        \<longrightarrow> snd (run_operation chk operation db) = db)
   \<and> (cw < 0 \<longrightarrow> fst (run_operation chk (CreateProduct now new_id l cp cw p) db) \<noteq> None)
   \<and> (cw < 0 \<longrightarrow>
        fst (run_operation chk (UpdateProduct now pid l' cp' (Some cw) p') db) \<noteq> None)
   \<and> (products db pid = Some x \<and> count_in_warehouse x + change < 0 \<longrightarrow>
        fst (run_operation chk (UpdateStock pid change) db)
          = Some (DatabaseOperationFailed (InsufficientStock (count_in_warehouse x) change)))
   \<and> (products db pid = Some x \<and> (pid, q) \<in> set raw \<and> count_in_warehouse x < q \<longrightarrow>
        fst (run_operation chk (CreateOrder new_id uid aid raw) db) \<noteq> None)"
proof (intro conjI impI)
  assume "stock_nonneg db"
  then show "stock_nonneg (run_operations chk ops db)" by (rule run_operations_stock_nonneg)
next
  assume "fst (run_operation chk operation db) \<noteq> None"
  with run_operation_sound [of chk operation db "fst (run_operation chk operation db)"
         "snd (run_operation chk operation db)"]
  show "snd (run_operation chk operation db) = db" by simp
next
  assume "cw < 0"
  then show "fst (run_operation chk (CreateProduct now new_id l cp cw p) db) \<noteq> None"
    by (rule create_product_rejects_negative_stock)
next
  assume "cw < 0"
  then show "fst (run_operation chk (UpdateProduct now pid l' cp' (Some cw) p') db) \<noteq> None"
    by (rule update_product_rejects_negative_stock)
next
  assume "products db pid = Some x \<and> count_in_warehouse x + change < 0"
  then show "fst (run_operation chk (UpdateStock pid change) db)
          = Some (DatabaseOperationFailed (InsufficientStock (count_in_warehouse x) change))"
    using update_stock_rejects_negative_stock [of db pid x change chk] by simp
next
  assume "products db pid = Some x \<and> (pid, q) \<in> set raw \<and> count_in_warehouse x < q"
  then show "fst (run_operation chk (CreateOrder new_id uid aid raw) db) \<noteq> None"
    using create_order_rejects_overdraw by blast
qed

theorem stock_never_negative_witness:
  "stock_nonneg shop
   \<and> stock_nonneg (run_operations accept busy_day shop)
   \<and> products (run_operations accept busy_day shop) 100
       = Some (widget\<lparr>count_in_warehouse := 0\<rparr>)
   \<and> (- 1 :: int) < 0
   \<and> fst (run_operation accept (CreateProduct 5 102 ''Gizmo'' 2 (- 1) (Decimal 999 (- 2))) shop)
       = Some WarehouseCountNegative
   \<and> fst (run_operation accept (UpdateProduct 5 100 None None (Some (- 1)) None) shop)
       = Some WarehouseCountNegative
   \<and> products shop 100 = Some widget
   \<and> count_in_warehouse widget + (- 150) < 0
   \<and> run_operation accept (UpdateStock 100 (- 150)) shop
       = (Some (DatabaseOperationFailed (InsufficientStock 100 (- 150))), shop)
   \<and> (100, 101) \<in> set [(100 :: uuid, 101 :: int)]
   \<and> count_in_warehouse widget < 101
   \<and> fst (run_operation accept (CreateOrder 1001 1 10 [(100, 101)]) shop)
       = Some (DatabaseOperationFailed (NotEnoughStock ''Widget'' 100 101))"
proof -
  have h1: "stock_nonneg shop"
    by (auto simp: stock_nonneg_def shop_def widget_def gadget_def split: if_splits)
  have h2: "products shop 100 = Some widget" by (simp add: shop_def)
  have h3: "count_in_warehouse widget + (- 150) < 0" "count_in_warehouse widget < 101"
    "count_in_warehouse widget = 100"
    by (simp_all add: widget_def)
  have h4: "fst (run_operation accept (CreateProduct 5 102 ''Gizmo'' 2 (- 1) (Decimal 999 (- 2))) shop)
       = Some WarehouseCountNegative"
    by (simp add: ProductCreate_def validate_label_def strip_def isspace_def
          validate_package_count_def validate_warehouse_count_def)
  have h5: "fst (run_operation accept (UpdateProduct 5 100 None None (Some (- 1)) None) shop)
       = Some WarehouseCountNegative"
    by (simp add: ProductUpdate_def optional_def validate_warehouse_count_def)
  have h6: "fst (run_operation accept (CreateOrder 1001 1 10 [(100, 101)]) shop)
       = Some (DatabaseOperationFailed (NotEnoughStock ''Widget'' 100 101))"
    by (simp add: OrderCreate_def OrderItemCreate_def validate_quantity_def validate_items_def
          outcome_def create_order_def provide_db_session_def OrderRepository_create_def
          flush_def accept_def process_item_def shop_def widget_def Let_def)
  have h7: "products (run_operations accept busy_day shop) 100
       = Some (widget\<lparr>count_in_warehouse := 0\<rparr>)"
    by (simp add: busy_day_def OrderCreate_def OrderItemCreate_def validate_quantity_def
          validate_items_def outcome_def create_order_def provide_db_session_def
          OrderRepository_create_def ProductRepository_update_stock_def
          ProductRepository_get_by_id_def set_product_def rollback_def commit_def
          flush_def accept_def process_item_def shop_def widget_def Let_def)
  from stock_never_negative
         [where db = shop and chk = accept and ops = busy_day
            and operation = "UpdateStock 100 (- 150)" and cw = "- 1" and now = 5
            and new_id = 102 and l = "''Gizmo''" and cp = 2 and p = "Decimal 999 (- 2)"
            and pid = 100 and l' = None and cp' = None and p' = None and x = widget
            and change = "- 150" and q = 101 and raw = "[(100, 101)]" and uid = 1
            and aid = 10]
       h1 h2 h3 h4 h5 h6 h7
  show ?thesis by (simp add: prod_eq_iff)
qed

lemma AddressRepository_create_Inr:
  assumes "AddressRepository_create chk new_id d s = (Inr v, s')"
  shows "chk (pending s')" and "committed s' = pending s'"
    and "addresses (pending s') new_id =
           Some \<lparr>user_id = ac_user_id d, street = ac_street d, city = ac_city d,
                state = ac_state d, zip_code = ac_zip_code d, country = ac_country d,
                is_primary = ac_is_primary d\<rparr>"
    and "\<And>k. k \<noteq> new_id \<Longrightarrow> addresses (pending s') k =
           map_option
             (\<lambda>a. if ac_is_primary d \<and> user_id a = ac_user_id d \<and> is_primary a
                  then a\<lparr>is_primary := False\<rparr> else a)
             (addresses (pending s) k)"
proof -
  let ?new = "\<lparr>user_id = ac_user_id d, street = ac_street d, city = ac_city d,
                state = ac_state d, zip_code = ac_zip_code d, country = ac_country d,
                is_primary = ac_is_primary d\<rparr>"
  let ?s1 = "if ac_is_primary d then clear_primary (ac_user_id d) (\<lambda>k. True) s else s"
  from assms have c: "commit chk (set_address new_id ?new ?s1) = Inr s'"
    by (auto simp: AddressRepository_create_def Let_def split: if_splits sum.splits)
  from commit_Inr [OF c] have s': "pending s' = pending (set_address new_id ?new ?s1)"
    and "chk (pending s')" and "committed s' = pending s'"
    by simp_all
  then show "chk (pending s')" and "committed s' = pending s'" by simp_all
  from s' show "addresses (pending s') new_id = Some ?new"
    by (simp add: set_address_def)
  fix k :: uuid assume "k \<noteq> new_id"
  with s' show "addresses (pending s') k =
           map_option
             (\<lambda>a. if ac_is_primary d \<and> user_id a = ac_user_id d \<and> is_primary a
                  then a\<lparr>is_primary := False\<rparr> else a)
             (addresses (pending s) k)"
    by (cases "addresses (pending s) k") (simp_all add: set_address_def clear_primary_def)
qed

lemma AddressRepository_update_Inr:
  assumes "AddressRepository_update chk aid d s = (Inr v, s')"
  obtains old where "addresses (pending s) aid = Some old"
    and "chk (pending s')" and "committed s' = pending s'"
    and "fst v = aid" and "user_id (snd v) = user_id old"
    and "is_primary (snd v) = (case au_is_primary d of None \<Rightarrow> is_primary old | Some b \<Rightarrow> b)"
    and "addresses (pending s') aid = Some (snd v)"
    and "\<forall>k. k \<noteq> aid \<longrightarrow> addresses (pending s') k =
           map_option
             (\<lambda>a. if au_is_primary d = Some True \<and> user_id a = user_id old \<and> is_primary a
                  then a\<lparr>is_primary := False\<rparr> else a)
             (addresses (pending s) k)"
proof (cases "addresses (pending s) aid")
  case None
  with assms show ?thesis by (simp add: AddressRepository_update_def)
next
  case (Some old)
  let ?new = "old
                \<lparr>street := (case au_street d of None \<Rightarrow> street old | Some v \<Rightarrow> v),
                 city := (case au_city d of None \<Rightarrow> city old | Some v \<Rightarrow> v),
                 state := (case au_state d of None \<Rightarrow> state old | Some v \<Rightarrow> Some v),
                 zip_code := (case au_zip_code d of None \<Rightarrow> zip_code old | Some v \<Rightarrow> v),
                 country := (case au_country d of None \<Rightarrow> country old | Some v \<Rightarrow> v),
                 is_primary := (case au_is_primary d of
                                  None \<Rightarrow> is_primary old | Some v \<Rightarrow> v)\<rparr>"
  let ?s1 = "if au_is_primary d = Some True
             then clear_primary (user_id old) (\<lambda>k. k \<noteq> aid) s else s"
  from assms Some have c: "commit chk (set_address aid ?new ?s1) = Inr s'"
    and v: "v = (aid, ?new)"
    by (auto simp: AddressRepository_update_def Let_def split: sum.splits if_splits)
  from commit_Inr [OF c] have s': "pending s' = pending (set_address aid ?new ?s1)"
    and ok: "chk (pending s')" "committed s' = pending s'"
    by simp_all
  have other: "addresses (pending s') k =
           map_option
             (\<lambda>a. if au_is_primary d = Some True \<and> user_id a = user_id old \<and> is_primary a
                  then a\<lparr>is_primary := False\<rparr> else a)
             (addresses (pending s) k)" if "k \<noteq> aid" for k
    using that s'
    by (cases "addresses (pending s) k") (simp_all add: set_address_def clear_primary_def)
  show ?thesis
  proof (rule that [of old])
    show "addresses (pending s) aid = Some old" by (rule Some)
    show "chk (pending s')" "committed s' = pending s'" by (rule ok)+
    show "fst v = aid" using v by simp
    show "user_id (snd v) = user_id old" using v by simp
    show "is_primary (snd v) = (case au_is_primary d of None \<Rightarrow> is_primary old | Some b \<Rightarrow> b)"
      using v by simp
    show "addresses (pending s') aid = Some (snd v)" using v s' by (simp add: set_address_def)
    show "\<forall>k. k \<noteq> aid \<longrightarrow> addresses (pending s') k =
           map_option
             (\<lambda>a. if au_is_primary d = Some True \<and> user_id a = user_id old \<and> is_primary a
                  then a\<lparr>is_primary := False\<rparr> else a)
             (addresses (pending s) k)"
      using other by blast
  qed
qed

lemma create_address_primary:
  assumes "provide_db_session chk (AddressRepository_create chk new_id d) db = (Inr v, db')"
    and "ac_is_primary d"
    and "addresses db' i = Some a" and "user_id a = ac_user_id d"
  shows "is_primary a \<longleftrightarrow> i = new_id"
  using assms(1)
proof (cases rule: provide_db_session_cases)
  case (succeeded v' s)
  note r = AddressRepository_create_Inr(3,4) [OF succeeded(1)]
  show ?thesis
  proof (cases "i = new_id")
    case True
    with r(1) succeeded(4) assms(2,3) show ?thesis by auto
  next
    case False
    from r(2) [OF False] succeeded(4) assms(2,3,4) False show ?thesis
      by (cases "addresses db i") (auto split: if_splits)
  qed
qed simp_all

lemma update_address_primary:
  assumes "provide_db_session chk (AddressRepository_update chk aid d) db = (Inr v, db')"
    and "au_is_primary d = Some True"
    and "addresses db' i = Some a" and "user_id a = user_id (snd v)"
  shows "is_primary a \<longleftrightarrow> i = aid"
  using assms(1)
proof (cases rule: provide_db_session_cases)
  case (succeeded v' s)
  from succeeded(1) obtain old where
    "addresses (pending \<lparr>committed = db, pending = db\<rparr>) aid = Some old"
    and "chk (pending s)" and "committed s = pending s"
    and "fst v' = aid"
    and u: "user_id (snd v') = user_id old"
    and p: "is_primary (snd v') = (case au_is_primary d of None \<Rightarrow> is_primary old | Some b \<Rightarrow> b)"
    and this_one: "addresses (pending s) aid = Some (snd v')"
    and other: "\<forall>k. k \<noteq> aid \<longrightarrow> addresses (pending s) k =
           map_option
             (\<lambda>a. if au_is_primary d = Some True \<and> user_id a = user_id old \<and> is_primary a
                  then a\<lparr>is_primary := False\<rparr> else a)
             (addresses (pending \<lparr>committed = db, pending = db\<rparr>) k)"
    by (rule AddressRepository_update_Inr)
  show ?thesis
  proof (cases "i = aid")
    case True
    with this_one p succeeded(3,4) assms(2,3) show ?thesis by auto
  next
    case False
    from other False u succeeded(3,4) assms(2,3,4) show ?thesis
      by (cases "addresses db i") (auto split: if_splits)
  qed
qed simp_all

text \<open>
  C6. After an address has been created with \<open>is_primary = true\<close>, or updated with
  \<open>is_primary = true\<close> in the payload, the address written is the primary one of its user
  and every other address of that user is not primary, in the datastore that the same
  unit of work commits. So at most one address of that user is primary.
\<close>

theorem primary_address_is_exclusive:
  "(provide_db_session chk (AddressRepository_create chk new_id d) db = (Inr v, db')
      \<and> ac_is_primary d
    \<longrightarrow> (\<forall>i a. addresses db' i = Some a \<and> user_id a = ac_user_id d
                \<longrightarrow> (is_primary a \<longleftrightarrow> i = new_id))
        \<and> at_most_one_primary db' (ac_user_id d))
   \<and> (provide_db_session chk (AddressRepository_update chk aid u) db = (Inr w, db'')
      \<and> au_is_primary u = Some True
    \<longrightarrow> (\<forall>i a. addresses db'' i = Some a \<and> user_id a = user_id (snd w)
                \<longrightarrow> (is_primary a \<longleftrightarrow> i = aid))
        \<and> at_most_one_primary db'' (user_id (snd w)))"
proof (intro conjI impI)
  assume a: "provide_db_session chk (AddressRepository_create chk new_id d) db = (Inr v, db')
      \<and> ac_is_primary d"
  then have only: "\<forall>i a. addresses db' i = Some a \<and> user_id a = ac_user_id d
                \<longrightarrow> (is_primary a \<longleftrightarrow> i = new_id)"
    using create_address_primary by blast
  then show "\<forall>i a. addresses db' i = Some a \<and> user_id a = ac_user_id d
                \<longrightarrow> (is_primary a \<longleftrightarrow> i = new_id)" .
  from only show "at_most_one_primary db' (ac_user_id d)"
    unfolding at_most_one_primary_def by blast
next
  assume a: "provide_db_session chk (AddressRepository_update chk aid u) db = (Inr w, db'')
      \<and> au_is_primary u = Some True"
  then have only: "\<forall>i a. addresses db'' i = Some a \<and> user_id a = user_id (snd w)
                \<longrightarrow> (is_primary a \<longleftrightarrow> i = aid)"
    using update_address_primary by blast
  then show "\<forall>i a. addresses db'' i = Some a \<and> user_id a = user_id (snd w)
                \<longrightarrow> (is_primary a \<longleftrightarrow> i = aid)" .
  from only show "at_most_one_primary db'' (user_id (snd w))"
    unfolding at_most_one_primary_def by blast
qed

theorem primary_address_is_exclusive_witness:
  "ac_is_primary summer_house
   \<and> fst (provide_db_session accept (AddressRepository_create accept 12 summer_house) shop)
       = Inr (12, \<lparr>user_id = 1, street = ''3 Lake Rd'', city = ''Shelbyville'',
                   state = None, zip_code = ''54321'', country = ''USA'',
                   is_primary = True\<rparr>)
   \<and> at_most_one_primary
        (snd (provide_db_session accept (AddressRepository_create accept 12 summer_house) shop))
        (ac_user_id summer_house)
   \<and> addresses
        (snd (provide_db_session accept (AddressRepository_create accept 12 summer_house) shop))
        10 = Some (home\<lparr>is_primary := False\<rparr>)
   \<and> au_is_primary make_primary = Some True
   \<and> fst (provide_db_session accept (AddressRepository_update accept 11 make_primary) shop)
       = Inr (11, office\<lparr>is_primary := True\<rparr>)
   \<and> at_most_one_primary
        (snd (provide_db_session accept (AddressRepository_update accept 11 make_primary) shop))
        (user_id office)
   \<and> addresses
        (snd (provide_db_session accept (AddressRepository_update accept 11 make_primary) shop))
        10 = Some (home\<lparr>is_primary := False\<rparr>)"
proof -
  let ?c = "provide_db_session accept (AddressRepository_create accept 12 summer_house) shop"
  let ?u = "provide_db_session accept (AddressRepository_update accept 11 make_primary) shop"
  have h1: "ac_is_primary summer_house" "ac_user_id summer_house = 1"
    by (simp_all add: summer_house_def)
  have h2: "au_is_primary make_primary = Some True" by (simp add: make_primary_def)
  have c1: "fst ?c = Inr (12, \<lparr>user_id = 1, street = ''3 Lake Rd'', city = ''Shelbyville'',
                   state = None, zip_code = ''54321'', country = ''USA'',
                   is_primary = True\<rparr>)"
    by (simp add: provide_db_session_def AddressRepository_create_def clear_primary_def
          set_address_def commit_def flush_def accept_def summer_house_def shop_def Let_def)
  have c2: "addresses (snd ?c) 10 = Some (home\<lparr>is_primary := False\<rparr>)"
    by (simp add: provide_db_session_def AddressRepository_create_def clear_primary_def
          set_address_def commit_def flush_def accept_def summer_house_def shop_def home_def
          Let_def)
  have u1: "fst ?u = Inr (11, office\<lparr>is_primary := True\<rparr>)"
    by (simp add: provide_db_session_def AddressRepository_update_def clear_primary_def
          set_address_def commit_def flush_def accept_def make_primary_def shop_def Let_def)
  have u2: "addresses (snd ?u) 10 = Some (home\<lparr>is_primary := False\<rparr>)"
    by (simp add: provide_db_session_def AddressRepository_update_def clear_primary_def
          set_address_def commit_def flush_def accept_def make_primary_def shop_def home_def
          office_def Let_def)
  from c1 have c3: "?c = (Inr (12, \<lparr>user_id = 1, street = ''3 Lake Rd'', city = ''Shelbyville'',
                   state = None, zip_code = ''54321'', country = ''USA'',
                   is_primary = True\<rparr>), snd ?c)"
    by (simp add: prod_eq_iff)
  from u1 have u3: "?u = (Inr (11, office\<lparr>is_primary := True\<rparr>), snd ?u)"
    by (simp add: prod_eq_iff)
  from primary_address_is_exclusive
         [THEN conjunct1, rule_format, OF conjI [OF c3 h1(1)], THEN conjunct2]
  have c4: "at_most_one_primary (snd ?c) (ac_user_id summer_house)" .
  from primary_address_is_exclusive
         [THEN conjunct2, rule_format, OF conjI [OF u3 h2], THEN conjunct2]
  have u4: "at_most_one_primary (snd ?u) (user_id office)" by simp
  from h1 h2 c1 c2 c4 u1 u2 u4 show ?thesis by simp
qed

lemma delete_product_referenced:
  assumes "products db pid = Some p" and "items_have_orders db"
    and "\<exists>item \<in> set (order_items db). product_id item = pid"
  shows "provide_db_session chk (ProductRepository_delete chk pid) db
           = (Inl (DatabaseOperationFailed ProductReferenced), db)"
proof -
  from assms(2,3) have "filter (\<lambda>item. product_id item = pid
                                \<and> order_id item \<in> set (map id_of_order (orders db)))
                       (order_items db) \<noteq> []"
    by (auto simp: items_have_orders_def filter_empty_conv)
  with assms(1) show ?thesis
    by (simp add: provide_db_session_def ProductRepository_delete_def
          ProductRepository_get_by_id_def rollback_def Let_def)
qed

lemma delete_address_referenced:
  assumes "addresses db aid = Some a"
    and "\<exists>order \<in> set (orders db). order_address_id order = aid"
  shows "provide_db_session chk (AddressRepository_delete chk aid) db
           = (Inl (DatabaseOperationFailed AddressInUse), db)"
proof -
  from assms(2) have "filter (\<lambda>order. order_address_id order = aid) (orders db) \<noteq> []"
    by (auto simp: filter_empty_conv)
  with assms(1) show ?thesis
    by (simp add: provide_db_session_def AddressRepository_delete_def rollback_def Let_def)
qed

lemma delete_user_referenced:
  assumes "users db uid = Some u"
    and "\<exists>order \<in> set (orders db). order_user_id order = uid"
  shows "provide_db_session chk (UserService_delete chk uid) db
           = (Inl (DatabaseOperationFailed UserHasOrders), db)"
proof -
  from assms(2) have "filter (\<lambda>order. order_user_id order = uid) (orders db) \<noteq> []"
    by (auto simp: filter_empty_conv)
  with assms(1) show ?thesis
    by (simp add: provide_db_session_def UserService_delete_def UserRepository_get_by_id_def
          rollback_def)
qed

text \<open>
  C8. Deleting a product that an order item refers to, an address that an order refers
  to, or a user who owns an order fails with the error that names the reference, and
  the datastore after the call is the datastore before it, so the entity still exists.
  (For the product the order item must belong to an existing order, which the foreign
  key of the order items guarantees.)
\<close>

theorem referenced_entities_cannot_be_deleted:
  "(products db pid = Some p \<and> items_have_orders db
      \<and> (\<exists>item \<in> set (order_items db). product_id item = pid)
    \<longrightarrow> provide_db_session chk (ProductRepository_delete chk pid) db
          = (Inl (DatabaseOperationFailed ProductReferenced), db))
   \<and> (addresses db aid = Some a
      \<and> (\<exists>order \<in> set (orders db). order_address_id order = aid)
    \<longrightarrow> provide_db_session chk (AddressRepository_delete chk aid) db
          = (Inl (DatabaseOperationFailed AddressInUse), db))
   \<and> (users db uid = Some u
      \<and> (\<exists>order \<in> set (orders db). order_user_id order = uid)
    \<longrightarrow> provide_db_session chk (UserService_delete chk uid) db
          = (Inl (DatabaseOperationFailed UserHasOrders), db))"
  using delete_product_referenced [of db pid p chk]
    delete_address_referenced [of db aid a chk]
    delete_user_referenced [of db uid u chk]
  by blast

theorem referenced_entities_cannot_be_deleted_witness:
  "products shop 100 = Some widget
   \<and> list_all (\<lambda>item. order_id item \<in> set (map id_of_order (orders shop))) (order_items shop)
   \<and> list_ex (\<lambda>item. product_id item = 100) (order_items shop)
   \<and> provide_db_session accept (ProductRepository_delete accept 100) shop
        = (Inl (DatabaseOperationFailed ProductReferenced), shop)
   \<and> addresses shop 10 = Some home
   \<and> list_ex (\<lambda>order. order_address_id order = 10) (orders shop)
   \<and> provide_db_session accept (AddressRepository_delete accept 10) shop
        = (Inl (DatabaseOperationFailed AddressInUse), shop)
   \<and> users shop 1 = Some alice
   \<and> list_ex (\<lambda>order. order_user_id order = 1) (orders shop)
   \<and> provide_db_session accept (UserService_delete accept 1) shop
        = (Inl (DatabaseOperationFailed UserHasOrders), shop)"
proof -
  have h1: "products shop 100 = Some widget" "addresses shop 10 = Some home"
    "users shop 1 = Some alice"
    by (simp_all add: shop_def)
  have h2: "items_have_orders shop" by (simp add: items_have_orders_def shop_def)
  have h3: "\<exists>item \<in> set (order_items shop). product_id item = 100"
    "\<exists>order \<in> set (orders shop). order_address_id order = 10"
    "\<exists>order \<in> set (orders shop). order_user_id order = 1"
    by (simp_all add: shop_def)
  from referenced_entities_cannot_be_deleted
         [of shop 100 widget accept 10 home 1 alice] h1 h2 h3
  show ?thesis by (simp add: list_all_iff list_ex_iff items_have_orders_def)
qed

lemma round_half_even_nearest:
  assumes "0 < d"
  shows "2 * \<bar>round_half_even c d * d - c\<bar> \<le> d"
    and "2 * \<bar>round_half_even c d * d - c\<bar> = d \<Longrightarrow> even (round_half_even c d)"
proof -
  define q where "q = c div d"
  define r where "r = c mod d"
  have c: "c = q * d + r" by (simp add: q_def r_def)
  from assms have r: "0 \<le> r" "r < d" by (simp_all add: r_def)
  show "2 * \<bar>round_half_even c d * d - c\<bar> \<le> d"
  proof (cases "d < 2 * r \<or> (2 * r = d \<and> odd q)")
    case True
    then have "round_half_even c d = q + 1"
      by (simp add: round_half_even_def q_def r_def Let_def)
    then have "round_half_even c d * d - c = d - r" by (simp add: c algebra_simps)
    with True r show ?thesis by auto
  next
    case False
    then have "round_half_even c d = q"
      by (simp add: round_half_even_def q_def r_def Let_def)
    then have "round_half_even c d * d - c = - r" by (simp add: c)
    with False r show ?thesis by auto
  qed
  assume tie: "2 * \<bar>round_half_even c d * d - c\<bar> = d"
  show "even (round_half_even c d)"
  proof (cases "d < 2 * r \<or> (2 * r = d \<and> odd q)")
    case True
    then have m: "round_half_even c d = q + 1"
      by (simp add: round_half_even_def q_def r_def Let_def)
    then have "round_half_even c d * d - c = d - r" by (simp add: c algebra_simps)
    with tie r have "2 * r = d" by auto
    with True have "odd q" by auto
    with m show ?thesis by simp
  next
    case False
    then have m: "round_half_even c d = q"
      by (simp add: round_half_even_def q_def r_def Let_def)
    then have "round_half_even c d * d - c = - r" by (simp add: c)
    with tie r have "2 * r = d" by auto
    with False have "even q" by auto
    with m show ?thesis by simp
  qed
qed

lemma quantize_rounds_half_even:
  assumes "quantize v (Decimal c' e) = Inr d"
  shows "is_half_even_rounding v e d"
proof -
  obtain c ev where v: "v = Decimal c ev" by (cases v)
  show ?thesis
  proof (cases "e \<le> ev")
    case True
    with assms v have "d = Decimal (c * 10 ^ nat (ev - e)) e"
      by (auto simp: Let_def split: if_splits)
    with True v show ?thesis
      by (simp add: is_half_even_rounding_def min_def Let_def)
  next
    case False
    with assms v have d: "d = Decimal (round_half_even c (10 ^ nat (e - ev))) e"
      by (auto simp: Let_def split: if_splits)
    have pos: "(0::int) < 10 ^ nat (e - ev)" by simp
    from False d v round_half_even_nearest [OF pos, of c] show ?thesis
      by (simp add: is_half_even_rounding_def min_def Let_def)
  qed
qed

lemma quantize_idempotent:
  assumes "quantize v (Decimal c' e) = Inr d"
  shows "quantize d (Decimal c'' e) = Inr d"
proof -
  obtain c ev where v: "v = Decimal c ev" by (cases v)
  with assms obtain m where "d = Decimal m e" and "\<not> 10 ^ 28 \<le> \<bar>m\<bar>"
    by (auto simp: Let_def split: if_splits)
  then show ?thesis by simp
qed

lemma ProductCreate_price:
  "ProductCreate l cp cw v = Inr d \<Longrightarrow> quantize v (Decimal 1 (- 2)) = Inr (pc_price d)"
  by (auto simp: ProductCreate_def validate_price_def split: sum.splits if_splits)

lemma ProductUpdate_price:
  "ProductUpdate l cp cw (Some v) = Inr d \<Longrightarrow>
     \<exists>p. pu_price d = Some p \<and> quantize v (Decimal 1 (- 2)) = Inr p"
  by (auto simp: ProductUpdate_def optional_def validate_price_def
           split: sum.splits if_splits)

lemma create_product_price:
  assumes "provide_db_session chk (ProductRepository_create chk now new_id d) db = (Inr v, db')"
  shows "products db' new_id = Some v"
    and "quantize (pc_price d) (Decimal 1 (- 2)) = Inr (price v)"
  using create_product_result [OF assms] by auto

lemma update_product_price:
  assumes "provide_db_session chk (ProductRepository_update chk now pid d) db = (Inr v, db')"
    and "pu_price d = Some x"
  shows "products db' pid = Some v"
    and "quantize x (Decimal 1 (- 2)) = Inr (price v)"
  using update_product_result [OF assms(1)] assms(2) by auto

text \<open>
  C9. A price enters as a \<^verbatim>\<open>Decimal\<close> (a float or a string through
  \<^verbatim>\<open>Decimal(str(x))\<close>, which is taken here as that decimal). Quantizing it to the exponent
  \<open>-2\<close> rounds it half to even, and quantizing the result again changes nothing. The
  schema validators of \<^verbatim>\<open>ProductCreate\<close> and \<^verbatim>\<open>ProductUpdate\<close> yield the quantized
  price; \<^verbatim>\<open>ProductRepository.create\<close> and \<^verbatim>\<open>update\<close>, when they succeed, store the
  quantized price of their payload; and a second update with the same payload stores the
  price that the first one stored.
\<close>

theorem stored_price_is_rounded_half_even:
  "(quantize v (Decimal 1 (- 2)) = Inr r
      \<longrightarrow> is_half_even_rounding v (- 2) r \<and> quantize r (Decimal 1 (- 2)) = Inr r)
   \<and> (ProductCreate l cp cw v = Inr created
      \<longrightarrow> quantize v (Decimal 1 (- 2)) = Inr (pc_price created))
   \<and> (ProductUpdate l' cp' cw' (Some v) = Inr updated
      \<longrightarrow> (\<exists>p. pu_price updated = Some p \<and> quantize v (Decimal 1 (- 2)) = Inr p))
   \<and> (provide_db_session chk (ProductRepository_create chk now new_id d) db = (Inr stored, db1)
      \<longrightarrow> products db1 new_id = Some stored
        \<and> quantize (pc_price d) (Decimal 1 (- 2)) = Inr (price stored))
   \<and> (provide_db_session chk (ProductRepository_update chk now' pid u) db = (Inr stored', db2)
        \<and> pu_price u = Some x
      \<longrightarrow> products db2 pid = Some stored'
        \<and> quantize x (Decimal 1 (- 2)) = Inr (price stored')
        \<and> (\<forall>again db3. provide_db_session chk (ProductRepository_update chk now'' pid u) db2
                            = (Inr again, db3)
              \<longrightarrow> price again = price stored'))"
proof (intro conjI impI allI)
  assume "quantize v (Decimal 1 (- 2)) = Inr r"
  then show "is_half_even_rounding v (- 2) r" and "quantize r (Decimal 1 (- 2)) = Inr r"
    by (rule quantize_rounds_half_even, rule quantize_idempotent)
next
  assume "ProductCreate l cp cw v = Inr created"
  then show "quantize v (Decimal 1 (- 2)) = Inr (pc_price created)"
    by (rule ProductCreate_price)
next
  assume "ProductUpdate l' cp' cw' (Some v) = Inr updated"
  then show "\<exists>p. pu_price updated = Some p \<and> quantize v (Decimal 1 (- 2)) = Inr p"
    by (rule ProductUpdate_price)
next
  assume a: "provide_db_session chk (ProductRepository_create chk now new_id d) db
               = (Inr stored, db1)"
  then show "products db1 new_id = Some stored"
    and "quantize (pc_price d) (Decimal 1 (- 2)) = Inr (price stored)"
    by (rule create_product_price)+
next
  assume a: "provide_db_session chk (ProductRepository_update chk now' pid u) db
               = (Inr stored', db2) \<and> pu_price u = Some x"
  then show "products db2 pid = Some stored'"
    and first: "quantize x (Decimal 1 (- 2)) = Inr (price stored')"
    using update_product_price by blast+
  fix again db3
  assume "provide_db_session chk (ProductRepository_update chk now'' pid u) db2
            = (Inr again, db3)"
  with a have "quantize x (Decimal 1 (- 2)) = Inr (price again)"
    using update_product_price(2) by blast
  with first show "price again = price stored'" by simp
qed

theorem stored_price_is_rounded_half_even_witness:
  "quantize (Decimal 12345 (- 3)) (Decimal 1 (- 2)) = Inr (Decimal 1234 (- 2))
   \<and> is_half_even_rounding (Decimal 12345 (- 3)) (- 2) (Decimal 1234 (- 2))
   \<and> quantize (Decimal 1234 (- 2)) (Decimal 1 (- 2)) = Inr (Decimal 1234 (- 2))
   \<and> ProductCreate ''  Gizmo '' 2 7 (Decimal 12345 (- 3))
       = Inr \<lparr>pc_label = ''Gizmo'', pc_count_in_package = 2, pc_count_in_warehouse = 7,
              pc_price = Decimal 1234 (- 2)\<rparr>
   \<and> ProductUpdate None None None (Some (Decimal 12345 (- 3)))
       = Inr \<lparr>pu_label = None, pu_count_in_package = None, pu_count_in_warehouse = None,
              pu_price = Some (Decimal 1234 (- 2))\<rparr>
   \<and> fst (provide_db_session accept (ProductRepository_create accept 5 102 gizmo) shop)
       = Inr \<lparr>label = ''Gizmo'', count_in_package = 2, count_in_warehouse = 7,
              price = Decimal 1236 (- 2), created_at = 5, updated_at = 5\<rparr>
   \<and> products (snd (provide_db_session accept (ProductRepository_create accept 5 102 gizmo)
                      shop)) 102
       = Some \<lparr>label = ''Gizmo'', count_in_package = 2, count_in_warehouse = 7,
               price = Decimal 1236 (- 2), created_at = 5, updated_at = 5\<rparr>
   \<and> pu_price raise_price = Some (Decimal 12345 (- 3))
   \<and> fst (provide_db_session accept (ProductRepository_update accept 7 100 raise_price) shop)
       = Inr (widget\<lparr>price := Decimal 1234 (- 2), updated_at := 7\<rparr>)
   \<and> fst (provide_db_session accept (ProductRepository_update accept 8 100 raise_price)
            (snd (provide_db_session accept
                    (ProductRepository_update accept 7 100 raise_price) shop)))
       = Inr (widget\<lparr>price := Decimal 1234 (- 2), updated_at := 8\<rparr>)
   \<and> price (widget\<lparr>price := Decimal 1234 (- 2), updated_at := 8\<rparr>)
       = price (widget\<lparr>price := Decimal 1234 (- 2), updated_at := 7\<rparr>)"
proof -
  let ?c = "provide_db_session accept (ProductRepository_create accept 5 102 gizmo) shop"
  let ?u = "provide_db_session accept (ProductRepository_update accept 7 100 raise_price) shop"
  let ?w = "provide_db_session accept (ProductRepository_update accept 8 100 raise_price)
              (snd ?u)"
  have q: "quantize (Decimal 12345 (- 3)) (Decimal 1 (- 2)) = Inr (Decimal 1234 (- 2))"
    by (simp add: round_half_even_def)
  have pc: "ProductCreate ''  Gizmo '' 2 7 (Decimal 12345 (- 3))
       = Inr \<lparr>pc_label = ''Gizmo'', pc_count_in_package = 2, pc_count_in_warehouse = 7,
              pc_price = Decimal 1234 (- 2)\<rparr>"
    by (simp add: ProductCreate_def validate_label_def strip_def isspace_def
          validate_package_count_def validate_warehouse_count_def validate_price_def
          round_half_even_def)
  have pu: "ProductUpdate None None None (Some (Decimal 12345 (- 3)))
       = Inr \<lparr>pu_label = None, pu_count_in_package = None, pu_count_in_warehouse = None,
              pu_price = Some (Decimal 1234 (- 2))\<rparr>"
    by (simp add: ProductUpdate_def optional_def validate_price_def round_half_even_def)
  have c1: "fst ?c
       = Inr \<lparr>label = ''Gizmo'', count_in_package = 2, count_in_warehouse = 7,
              price = Decimal 1236 (- 2), created_at = 5, updated_at = 5\<rparr>"
    by (simp add: provide_db_session_def ProductRepository_create_def set_product_def
          commit_def flush_def accept_def gizmo_def shop_def round_half_even_def Let_def)
  have u0: "pu_price raise_price = Some (Decimal 12345 (- 3))"
    by (simp add: raise_price_def)
  have u1: "fst ?u = Inr (widget\<lparr>price := Decimal 1234 (- 2), updated_at := 7\<rparr>)"
    by (simp add: provide_db_session_def ProductRepository_update_def
          ProductRepository_get_by_id_def set_product_def commit_def flush_def accept_def
          raise_price_def shop_def round_half_even_def Let_def)
  have u2: "snd ?u = shop\<lparr>products := (products shop)(100 \<mapsto>
                       widget\<lparr>price := Decimal 1234 (- 2), updated_at := 7\<rparr>)\<rparr>"
    by (simp add: provide_db_session_def ProductRepository_update_def
          ProductRepository_get_by_id_def set_product_def commit_def flush_def accept_def
          raise_price_def shop_def round_half_even_def Let_def)
  have w1: "fst ?w = Inr (widget\<lparr>price := Decimal 1234 (- 2), updated_at := 8\<rparr>)"
    unfolding u2
    by (simp add: provide_db_session_def ProductRepository_update_def
          ProductRepository_get_by_id_def set_product_def commit_def flush_def accept_def
          raise_price_def round_half_even_def Let_def)
  from c1 have c3: "?c = (Inr \<lparr>label = ''Gizmo'', count_in_package = 2, count_in_warehouse = 7,
              price = Decimal 1236 (- 2), created_at = 5, updated_at = 5\<rparr>, snd ?c)"
    by (simp add: prod_eq_iff)
  from u1 have u3: "?u = (Inr (widget\<lparr>price := Decimal 1234 (- 2), updated_at := 7\<rparr>), snd ?u)"
    by (simp add: prod_eq_iff)
  from w1 have w3: "?w = (Inr (widget\<lparr>price := Decimal 1234 (- 2), updated_at := 8\<rparr>), snd ?w)"
    by (simp add: prod_eq_iff)
  note inst = stored_price_is_rounded_half_even
         [where v = "Decimal 12345 (- 3)" and r = "Decimal 1234 (- 2)"
            and l = "''  Gizmo ''" and cp = 2 and cw = 7
            and created = "\<lparr>pc_label = ''Gizmo'', pc_count_in_package = 2,
                             pc_count_in_warehouse = 7, pc_price = Decimal 1234 (- 2)\<rparr>"
            and l' = None and cp' = None and cw' = None
            and updated = "\<lparr>pu_label = None, pu_count_in_package = None,
                             pu_count_in_warehouse = None,
                             pu_price = Some (Decimal 1234 (- 2))\<rparr>"
            and chk = accept and now = 5 and new_id = 102 and d = gizmo and db = shop
            and stored = "\<lparr>label = ''Gizmo'', count_in_package = 2, count_in_warehouse = 7,
                            price = Decimal 1236 (- 2), created_at = 5, updated_at = 5\<rparr>"
            and ?db1.0 = "snd ?c" and now' = 7 and pid = 100 and u = raise_price
            and stored' = "widget\<lparr>price := Decimal 1234 (- 2), updated_at := 7\<rparr>"
            and ?db2.0 = "snd ?u" and x = "Decimal 12345 (- 3)" and now'' = 8]
  from inst q have a: "is_half_even_rounding (Decimal 12345 (- 3)) (- 2) (Decimal 1234 (- 2))"
    "quantize (Decimal 1234 (- 2)) (Decimal 1 (- 2)) = Inr (Decimal 1234 (- 2))"
    by blast+
  from inst c3 have b: "products (snd ?c) 102
       = Some \<lparr>label = ''Gizmo'', count_in_package = 2, count_in_warehouse = 7,
               price = Decimal 1236 (- 2), created_at = 5, updated_at = 5\<rparr>"
    by blast
  from inst u3 u0 w3 have c: "price (widget\<lparr>price := Decimal 1234 (- 2), updated_at := 8\<rparr>)
       = price (widget\<lparr>price := Decimal 1234 (- 2), updated_at := 7\<rparr>)"
    by blast
  from q a pc pu c1 b u0 u1 w1 c show ?thesis by blast
qed

lemma user_update_with_email:
  assumes "uu_email d \<noteq> None"
  shows "provide_db_session chk (UserService_update chk uid d) db =
           (Inl (DatabaseOperationFailed
                  (if (case uu_username d of None \<Rightarrow> False | Some n \<Rightarrow> n \<noteq> [] \<and> length n < 3)
                   then UsernameTooShort else EmailImmutable)), db)"
  using assms
  by (simp add: provide_db_session_def UserService_update_def rollback_def)

lemma user_update_username_only:
  assumes "uu_email d = None" and "uu_username d = Some n" and "3 \<le> length n"
    and "uu_description d = None" and "users db uid = Some u"
    and "chk (db\<lparr>users := (users db)(uid \<mapsto> u\<lparr>username := n\<rparr>)\<rparr>)"
  shows "provide_db_session chk (UserService_update chk uid d) db =
           (Inr (u\<lparr>username := n\<rparr>), db\<lparr>users := (users db)(uid \<mapsto> u\<lparr>username := n\<rparr>)\<rparr>)"
  using assms
  by (simp add: provide_db_session_def UserService_update_def UserRepository_update_def
        UserRepository_get_by_id_def commit_def flush_def Let_def)

lemma UserUpdate_has_no_email:
  "UserUpdate un de = Inr d \<Longrightarrow> uu_email d = None"
  by (auto simp: UserUpdate_def split: sum.splits)

text \<open>
  C7, as the specification states it, fails: a payload that carries an email and a
  username of two characters is refused for the username, not for the email.
\<close>

theorem email_change_rejected_counterexample:
  "uu_email email_and_short_name = Some ''new@example.com''
   \<and> provide_db_session accept (UserService_update accept 1 email_and_short_name) shop
       = (Inl (DatabaseOperationFailed UsernameTooShort), shop)
   \<and> fst (provide_db_session accept (UserService_update accept 1 email_and_short_name) shop)
       \<noteq> Inl (DatabaseOperationFailed EmailImmutable)"
  by (simp add: provide_db_session_def UserService_update_def rollback_def
        email_and_short_name_def)

text \<open>
  C7, amended. A user update whose payload carries an email is always refused, and the
  datastore is left as it was; the error is the one for the immutable email unless the
  payload also carries a non-empty username of fewer than 3 characters, which is refused
  first with the error for the username. An update that carries only a username of at
  least 3 characters, for a user that exists and when the engine accepts the flush, is
  applied: the username is the new one and the email is the one the user had.
\<close>

theorem email_change_rejected:
  "(uu_email d \<noteq> None \<longrightarrow>
      isl (fst (provide_db_session chk (UserService_update chk uid d) db))
      \<and> snd (provide_db_session chk (UserService_update chk uid d) db) = db
      \<and> ((case uu_username d of None \<Rightarrow> True | Some n \<Rightarrow> n = [] \<or> 3 \<le> length n) \<longrightarrow>
           fst (provide_db_session chk (UserService_update chk uid d) db)
             = Inl (DatabaseOperationFailed EmailImmutable))
      \<and> ((case uu_username d of None \<Rightarrow> False | Some n \<Rightarrow> n \<noteq> [] \<and> length n < 3) \<longrightarrow>
           fst (provide_db_session chk (UserService_update chk uid d) db)
             = Inl (DatabaseOperationFailed UsernameTooShort)))
   \<and> (uu_email d = None \<and> uu_username d = Some n \<and> 3 \<le> length n
        \<and> uu_description d = None \<and> users db uid = Some u
        \<and> chk (db\<lparr>users := (users db)(uid \<mapsto> u\<lparr>username := n\<rparr>)\<rparr>) \<longrightarrow>
      provide_db_session chk (UserService_update chk uid d) db
        = (Inr (u\<lparr>username := n\<rparr>), db\<lparr>users := (users db)(uid \<mapsto> u\<lparr>username := n\<rparr>)\<rparr>)
      \<and> email (u\<lparr>username := n\<rparr>) = email u)"
proof (intro conjI impI)
  assume e: "uu_email d \<noteq> None"
  note r = user_update_with_email [OF e, of chk uid db]
  from r show "isl (fst (provide_db_session chk (UserService_update chk uid d) db))"
    and "snd (provide_db_session chk (UserService_update chk uid d) db) = db"
    by simp_all
  {
    assume "case uu_username d of None \<Rightarrow> True | Some n \<Rightarrow> n = [] \<or> 3 \<le> length n"
    with r show "fst (provide_db_session chk (UserService_update chk uid d) db)
             = Inl (DatabaseOperationFailed EmailImmutable)"
      by (auto split: option.splits)
  }
  {
    assume "case uu_username d of None \<Rightarrow> False | Some n \<Rightarrow> n \<noteq> [] \<and> length n < 3"
    with r show "fst (provide_db_session chk (UserService_update chk uid d) db)
             = Inl (DatabaseOperationFailed UsernameTooShort)"
      by simp
  }
next
  assume a: "uu_email d = None \<and> uu_username d = Some n \<and> 3 \<le> length n
        \<and> uu_description d = None \<and> users db uid = Some u
        \<and> chk (db\<lparr>users := (users db)(uid \<mapsto> u\<lparr>username := n\<rparr>)\<rparr>)"
  then show "provide_db_session chk (UserService_update chk uid d) db
        = (Inr (u\<lparr>username := n\<rparr>), db\<lparr>users := (users db)(uid \<mapsto> u\<lparr>username := n\<rparr>)\<rparr>)"
    using user_update_username_only by blast
  show "email (u\<lparr>username := n\<rparr>) = email u" by simp
qed

theorem email_change_rejected_witness:
  "uu_email email_only = Some ''new@example.com''
   \<and> uu_username email_only = None
   \<and> provide_db_session accept (UserService_update accept 1 email_only) shop
       = (Inl (DatabaseOperationFailed EmailImmutable), shop)
   \<and> uu_username email_and_short_name = Some ''al''
   \<and> provide_db_session accept (UserService_update accept 1 email_and_short_name) shop
       = (Inl (DatabaseOperationFailed UsernameTooShort), shop)
   \<and> uu_email rename_alice = None
   \<and> uu_username rename_alice = Some ''alicia''
   \<and> users shop 1 = Some alice
   \<and> accept (shop\<lparr>users := (users shop)(1 \<mapsto> alice\<lparr>username := ''alicia''\<rparr>)\<rparr>)
   \<and> provide_db_session accept (UserService_update accept 1 rename_alice) shop
       = (Inr (alice\<lparr>username := ''alicia''\<rparr>),
          shop\<lparr>users := (users shop)(1 \<mapsto> alice\<lparr>username := ''alicia''\<rparr>)\<rparr>)
   \<and> email (alice\<lparr>username := ''alicia''\<rparr>) = ''alice@example.com''"
proof -
  have h1: "uu_email email_only \<noteq> None" "uu_email email_only = Some ''new@example.com''"
    "uu_username email_only = None"
    by (simp_all add: email_only_def)
  have h2: "uu_email email_and_short_name \<noteq> None"
    "uu_username email_and_short_name = Some ''al''"
    by (simp_all add: email_and_short_name_def)
  have h3: "uu_email rename_alice = None" "uu_username rename_alice = Some ''alicia''"
    "uu_description rename_alice = None" "3 \<le> length ''alicia''"
    by (simp_all add: rename_alice_def)
  have h4: "users shop 1 = Some alice" by (simp add: shop_def)
  have h5: "accept (shop\<lparr>users := (users shop)(1 \<mapsto> alice\<lparr>username := ''alicia''\<rparr>)\<rparr>)"
    by (simp add: accept_def)
  have h6: "email alice = ''alice@example.com''" by (simp add: alice_def)
  from email_change_rejected [where d = email_only and chk = accept and uid = 1 and db = shop]
    h1
  have a: "provide_db_session accept (UserService_update accept 1 email_only) shop
       = (Inl (DatabaseOperationFailed EmailImmutable), shop)"
    by (simp add: prod_eq_iff)
  from email_change_rejected
         [where d = email_and_short_name and chk = accept and uid = 1 and db = shop] h2
  have b: "provide_db_session accept (UserService_update accept 1 email_and_short_name) shop
       = (Inl (DatabaseOperationFailed UsernameTooShort), shop)"
    by (simp add: prod_eq_iff)
  from email_change_rejected
         [where d = rename_alice and chk = accept and uid = 1 and db = shop
            and n = "''alicia''" and u = alice] h3 h4 h5
  have c: "provide_db_session accept (UserService_update accept 1 rename_alice) shop
       = (Inr (alice\<lparr>username := ''alicia''\<rparr>),
          shop\<lparr>users := (users shop)(1 \<mapsto> alice\<lparr>username := ''alicia''\<rparr>)\<rparr>)"
    by simp
  from a b c h1 h2 h3 h4 h5 h6 show ?thesis by simp
qed

text \<open>
  Two orders placed one after the other, each for 60 of the 100 widgets in stock: the
  first is accepted and leaves 40, the second is refused and leaves the stock at 40.
\<close>

lemma two_orders_in_sequence:
  "map_option count_in_warehouse
     (products (snd (create_order accept 1001 sixty_widgets shop)) 100) = Some 40
   \<and> fst (create_order accept 1002 sixty_widgets
            (snd (create_order accept 1001 sixty_widgets shop)))
       = Inl (DatabaseOperationFailed (NotEnoughStock ''Widget'' 40 60))
   \<and> map_option count_in_warehouse
       (products (snd (create_order accept 1002 sixty_widgets
                         (snd (create_order accept 1001 sixty_widgets shop)))) 100) = Some 40"
proof -
  let ?db1 = "snd (create_order accept 1001 sixty_widgets shop)"
  have first: "?db1 = shop
     \<lparr>orders := orders shop @ [\<lparr>id_of_order = 1001, order_user_id = 1, order_address_id = 10\<rparr>],
      order_items := order_items shop @
        [\<lparr>order_id = 1001, product_id = 100, quantity = 60, unit_price = Decimal 1000 (- 2)\<rparr>],
      products := (products shop)(100 \<mapsto> widget\<lparr>count_in_warehouse := 40\<rparr>)\<rparr>"
    by (simp add: create_order_def provide_db_session_def OrderRepository_create_def
          flush_def commit_def accept_def process_item_def set_product_def sixty_widgets_def
          shop_def widget_def Let_def)
  have second: "fst (create_order accept 1002 sixty_widgets ?db1)
       = Inl (DatabaseOperationFailed (NotEnoughStock ''Widget'' 40 60))"
    unfolding first
    by (simp add: create_order_def provide_db_session_def OrderRepository_create_def
          flush_def commit_def accept_def process_item_def set_product_def sixty_widgets_def
          shop_def widget_def Let_def)
  then have "isl (fst (create_order accept 1002 sixty_widgets ?db1))" by simp
  then have "snd (create_order accept 1002 sixty_widgets ?db1) = ?db1"
    by (metis create_order_failure isl_def prod.collapse)
  with first second show ?thesis by simp
qed

text \<open>
  The table \<^verbatim>\<open>order_items\<close> has the primary key \<open>(order_id, product_id)\<close>, and the loop adds
  one order item for every line. Under an engine that enforces that key, a call whose
  lines name one product twice passes the loop (when the stock suffices) and is refused
  at the commit: the call fails and the datastore is left as it was.
\<close>

lemma process_items_product_ids:
  assumes "process_items oid xs t s = (Inr t', s')"
  shows "\<exists>new. order_items (pending s') = order_items (pending s) @ new
           \<and> map product_id new = map item_product_id xs
           \<and> (\<forall>it \<in> set new. order_id it = oid)"
  using assms
proof (induction xs arbitrary: t s)
  case Nil
  then show ?case by simp
next
  case (Cons item rest)
  from Cons.prems(1) obtain t1 s1 where
    h: "process_item oid item t s = Inr (t1, s1)" and r: "process_items oid rest t1 s1 = (Inr t', s')"
    by (auto split: sum.splits)
  from h obtain p where
    "products (pending s) (item_product_id item) = Some p"
    and "item_quantity item \<le> count_in_warehouse p"
    and "t1 = dec_add t (dec_mul_int (price p) (item_quantity item))"
    and s1_def: "s1 = s\<lparr>pending := (pending s)
               \<lparr>order_items := order_items (pending s) @
                   [\<lparr>order_id = oid, product_id = item_product_id item,
                     quantity = item_quantity item, unit_price = price p\<rparr>],
                products := (products (pending s))(item_product_id item \<mapsto>
                   p\<lparr>count_in_warehouse := count_in_warehouse p - item_quantity item\<rparr>)\<rparr>\<rparr>"
    by (rule process_item_Inr)
  let ?x = "\<lparr>order_id = oid, product_id = item_product_id item,
             quantity = item_quantity item, unit_price = price p\<rparr>"
  from s1_def have s1: "order_items (pending s1) = order_items (pending s) @ [?x]" by simp
  from Cons.IH [OF r] obtain new where
    new: "order_items (pending s') = order_items (pending s1) @ new"
      "map product_id new = map item_product_id rest"
      "\<forall>it \<in> set new. order_id it = oid"
    by blast
  from new s1 have "order_items (pending s') = order_items (pending s) @ (?x # new)
           \<and> map product_id (?x # new) = map item_product_id (item # rest)
           \<and> (\<forall>it \<in> set (?x # new). order_id it = oid)"
    by simp
  then show ?case by blast
qed

lemma duplicate_lines_fail_at_commit:
  assumes key: "\<And>view. chk view \<Longrightarrow>
                  distinct (map (\<lambda>it. (order_id it, product_id it)) (order_items view))"
    and dup: "\<not> distinct (map item_product_id (oc_items order_data))"
  shows "isl (fst (create_order chk new_id order_data db))
       \<and> snd (create_order chk new_id order_data db) = db"
proof -
  have failed: "isl (fst (create_order chk new_id order_data db))"
  proof (rule ccontr)
    assume "\<not> isl (fst (create_order chk new_id order_data db))"
    then obtain v where "fst (create_order chk new_id order_data db) = Inr v"
      by (cases "fst (create_order chk new_id order_data db)") simp_all
    then have ok: "create_order chk new_id order_data db
                     = (Inr v, snd (create_order chk new_id order_data db))"
      by (simp add: prod_eq_iff)
    let ?s = "\<lparr>committed = db, pending = db\<rparr>"
    from ok obtain s4 where
      c: "OrderRepository_create chk new_id order_data ?s = (Inr v, s4)"
      by (auto simp: create_order_def provide_db_session_def split: prod.splits sum.splits)
    from OrderRepository_create_Inr [OF c] have accepted: "chk (pending s4)" by simp
    from ok obtain total_amount s3 where
      run: "process_items new_id (oc_items order_data) (Decimal 0 (- 2))
         \<lparr>committed = db,
          pending = db\<lparr>orders := orders db @
            [\<lparr>id_of_order = new_id, order_user_id = oc_user_id order_data,
              order_address_id = oc_address_id order_data\<rparr>]\<rparr>\<rparr> = (Inr total_amount, s3)"
      and d: "snd (create_order chk new_id order_data db) = pending s3"
      and "new_id \<notin> set (map id_of_order (orders db))"
      by (rule create_order_Inr)
    from c run have same: "pending s4 = pending s3"
      by (auto simp: OrderRepository_create_def Let_def flush_def
               dest!: commit_Inr split: if_splits sum.splits prod.splits)
    from process_items_product_ids [OF run] obtain new where
      new: "order_items (pending s3) = order_items db @ new"
        "map product_id new = map item_product_id (oc_items order_data)"
        "\<forall>it \<in> set new. order_id it = new_id"
      by auto
    from new(3) have "map (\<lambda>it. (order_id it, product_id it)) new
                        = map (\<lambda>pid. (new_id, pid)) (map product_id new)"
      by (induction new) simp_all
    with new(2) have keys: "map (\<lambda>it. (order_id it, product_id it)) new
                        = map (\<lambda>pid. (new_id, pid)) (map item_product_id (oc_items order_data))"
      by simp
    have "inj (\<lambda>pid. (new_id, pid))" by (simp add: inj_on_def)
    with dup have "\<not> distinct (map (\<lambda>pid. (new_id, pid))
                                 (map item_product_id (oc_items order_data)))"
      by (simp add: distinct_map inj_on_def)
    with keys new(1) have "\<not> distinct (map (\<lambda>it. (order_id it, product_id it))
                                          (order_items (pending s3)))"
      by simp
    with key [OF accepted] same show False by simp
  qed
  moreover from failed have "snd (create_order chk new_id order_data db) = db"
    by (metis create_order_failure isl_def prod.collapse)
  ultimately show ?thesis by simp
qed

end
